theory Spec2Isabelle
  imports Complex_Main "HOL-Library.Sublist"
begin

section \<open>Product resolution and sampling orchestration (src/tools/index.ts)\<close>

subsection \<open>JavaScript values and strings\<close>

text \<open>
  The fields of a product are loosely typed: a field may be missing (\<open>undefined\<close>),
  \<open>null\<close> or a string. Strings are lists of 8-bit characters, so only the code units
  up to U+00FF of a JavaScript string are represented.
\<close>

datatype jsval = Undefined | Null | Str string

text \<open>Truthiness, as tested by \<open>if (v)\<close>, \<open>!v\<close> and \<open>v || d\<close>.\<close>

definition truthy :: "jsval \<Rightarrow> bool" where
  "truthy v = (case v of Undefined \<Rightarrow> False | Null \<Rightarrow> False | Str s \<Rightarrow> s \<noteq> [])"

text \<open>What a template literal \<open>`${v}`\<close> prints.\<close>

definition template :: "jsval \<Rightarrow> string" where
  "template v = (case v of Undefined \<Rightarrow> ''undefined'' | Null \<Rightarrow> ''null'' | Str s \<Rightarrow> s)"

text \<open>\<open>`${v || d}`\<close> for a string literal \<open>d\<close>.\<close>

definition or_default :: "jsval \<Rightarrow> string \<Rightarrow> string" where
  "or_default v d = (if truthy v then template v else d)"

definition nl :: char where
  "nl = CHR 0x0A"

definition dq :: char where
  "dq = CHR 0x22"

text \<open>
  \<open>String.prototype.trim\<close> removes white space and line terminators from both ends;
  these are the ones among the first 256 code units.
\<close>

definition is_space :: "char \<Rightarrow> bool" where
  "is_space c = (c \<in> set [CHR 0x09, CHR 0x0A, CHR 0x0B, CHR 0x0C, CHR 0x0D, CHR 0x20, CHR 0xA0])"

definition trim :: "string \<Rightarrow> string" where
  "trim s = rev (dropWhile is_space (rev (dropWhile is_space s)))"

text \<open>\<open>!s?.trim()\<close> on a string: true exactly when nothing is left after trimming.\<close>

definition blank :: "string \<Rightarrow> bool" where
  "blank s = (trim s = [])"

text \<open>The regular expression \<open>/^\d+$/\<close>: one or more ASCII digits and nothing else.\<close>

definition is_digit :: "char \<Rightarrow> bool" where
  "is_digit c = (c \<in> set ''0123456789'')"

definition isBarcode :: "string \<Rightarrow> bool" where
  "isBarcode query = (query \<noteq> [] \<and> list_all is_digit query)"

subsection \<open>Data model\<close>

record product =
  product_name :: jsval
  brands :: jsval
  barcode :: jsval
  nutriscore_grade :: jsval
  ingredients_text :: jsval

text \<open>What \<open>searchProducts\<close> resolves to; \<open>products\<close> may be missing.\<close>

record result_set =
  products :: "product list option"

text \<open>The object \<open>{ product }\<close> built by the resolver; its field holds whatever the lookup gave.\<close>

datatype resolved = Bundle (product: "product option")

text \<open>A thrown \<open>Error\<close> object, and \<open>`${error}`\<close>, that is \<open>Error.prototype.toString\<close>.\<close>

datatype error = Error (ename: string) (message: string)

definition toString :: "error \<Rightarrow> string" where
  "toString e =
     (if ename e = [] then message e
      else if message e = [] then ename e
      else ename e @ '': '' @ message e)"

text \<open>The argument of \<open>requestSampling\<close>; each message is a role and a text.\<close>

record request =
  messages :: "(string \<times> string) list"
  systemPrompt :: string
  hints :: "string list"
  intelligencePriority :: real
  includeContext :: string
  temperature :: real
  maxTokens :: nat

text \<open>A tool's answer: text items and the optional \<open>isError\<close> key (\<open>None\<close> when the key is absent).\<close>

datatype content = TextContent (content_text: string)

record tool_result =
  content :: "content list"
  isError :: "bool option"

subsection \<open>Collaborators, events and effects\<close>

text \<open>
  The imported functions are parameters. A call of a collaborator that awaits the network
  takes the state of the outside world and returns its outcome (\<open>Inl\<close>: the promise
  rejects) with the new state, so the same call may answer differently the second time.
  \<open>'r\<close> is the opaque type of a sampling response.
\<close>

record ('w, 'r) env =
  getProductByBarcode :: "string \<Rightarrow> 'w \<Rightarrow> (error + product option) \<times> 'w"
  searchProducts :: "string \<Rightarrow> nat \<Rightarrow> nat \<Rightarrow> 'w \<Rightarrow> (error + result_set option) \<times> 'w"
  requestSampling :: "request \<Rightarrow> 'w \<Rightarrow> (error + 'r) \<times> 'w"
  createRecipeSuggestionRequest :: "product \<Rightarrow> request"
  getResponseText :: "'r \<Rightarrow> string"
  JSON_stringify :: "product \<Rightarrow> nat option \<Rightarrow> string"

text \<open>What a run does that an observer can see: each collaborator call with its outcome, each log line.\<close>

datatype 'r event =
    BarcodeLookup string "error + product option"
  | Search string nat nat "error + result_set option"
  | LogError string
  | Sampling request "error + 'r"

text \<open>
  An asynchronous computation: from the world to its outcome (\<open>Inl\<close>: it throws), the
  events it caused in order, and the world it leaves.
\<close>

type_synonym ('w, 'r, 'a) prog = "'w \<Rightarrow> (error + 'a) \<times> 'r event list \<times> 'w"

definition ret :: "'a \<Rightarrow> ('w, 'r, 'a) prog" where
  "ret x w = (Inr x, [], w)"

definition bind :: "('w, 'r, 'a) prog \<Rightarrow> ('a \<Rightarrow> ('w, 'r, 'b) prog) \<Rightarrow> ('w, 'r, 'b) prog" where
  "bind m f w =
     (case m w of
        (Inl e, tr, w1) \<Rightarrow> (Inl e, tr, w1)
      | (Inr x, tr, w1) \<Rightarrow> (case f x w1 of (r, tr2, w2) \<Rightarrow> (r, tr @ tr2, w2)))"

text \<open>\<open>try { m } catch (e) { h e }\<close>\<close>

definition try_catch :: "('w, 'r, 'a) prog \<Rightarrow> (error \<Rightarrow> ('w, 'r, 'a) prog) \<Rightarrow> ('w, 'r, 'a) prog" where
  "try_catch m h w =
     (case m w of
        (Inl e, tr, w1) \<Rightarrow> (case h e w1 of (r, tr2, w2) \<Rightarrow> (r, tr @ tr2, w2))
      | (Inr x, tr, w1) \<Rightarrow> (Inr x, tr, w1))"

definition await_getProductByBarcode :: "('w, 'r) env \<Rightarrow> string \<Rightarrow> ('w, 'r, product option) prog" where
  "await_getProductByBarcode env code w =
     (case getProductByBarcode env code w of (out, w1) \<Rightarrow> (out, [BarcodeLookup code out], w1))"

definition await_searchProducts ::
  "('w, 'r) env \<Rightarrow> string \<Rightarrow> nat \<Rightarrow> nat \<Rightarrow> ('w, 'r, result_set option) prog" where
  "await_searchProducts env q page pageSize w =
     (case searchProducts env q page pageSize w of
        (out, w1) \<Rightarrow> (out, [Search q page pageSize out], w1))"

definition await_requestSampling :: "('w, 'r) env \<Rightarrow> request \<Rightarrow> ('w, 'r, 'r) prog" where
  "await_requestSampling env req w =
     (case requestSampling env req w of (out, w1) \<Rightarrow> (out, [Sampling req out], w1))"

definition logger_error :: "string \<Rightarrow> ('w, 'r, unit) prog" where
  "logger_error msg w = (Inr (), [LogError msg], w)"

subsection \<open>The resolver\<close>

text \<open>Whether a block ended in a \<open>return\<close> or ran to its end.\<close>

datatype 'a flow = Returned 'a | Fallthrough

text \<open>\<open>results?.products?.[0]?.barcode\<close>\<close>

definition first_barcode :: "result_set option \<Rightarrow> jsval" where
  "first_barcode results =
     (case results of
        None \<Rightarrow> Undefined
      | Some rs \<Rightarrow>
          (case products rs of
             None \<Rightarrow> Undefined
           | Some [] \<Rightarrow> Undefined
           | Some (p # _) \<Rightarrow> barcode p))"

text \<open>
  \<open>findProduct\<close>, lines 18 to 45. The result \<open>None\<close> is \<open>null\<close>. The first block is the
  direct lookup of an all-digit query, the second the search and the second fetch.
\<close>

definition findProduct :: "('w, 'r) env \<Rightarrow> string \<Rightarrow> ('w, 'r, resolved option) prog" where
  "findProduct env nameOrBarcode =
     (if blank nameOrBarcode then ret None
      else
        let query = trim nameOrBarcode in
        bind
          (if isBarcode query then
             try_catch
               (bind (await_getProductByBarcode env query) (\<lambda>p.
                  if p \<noteq> None then ret (Returned (Some (Bundle p))) else ret Fallthrough))
               (\<lambda>e. bind (logger_error (''Barcode lookup failed: '' @ toString e)) (\<lambda>_.
                  ret Fallthrough))
           else ret Fallthrough)
          (\<lambda>direct. case direct of
             Returned d \<Rightarrow> ret d
           | Fallthrough \<Rightarrow>
               bind
                 (try_catch
                    (bind (await_searchProducts env query 1 1) (\<lambda>results.
                       case first_barcode results of
                         Str code \<Rightarrow>
                           if code \<noteq> [] then
                             bind (await_getProductByBarcode env code) (\<lambda>p.
                               ret (Returned (Some (Bundle p))))
                           else ret Fallthrough
                       | _ \<Rightarrow> ret Fallthrough))
                    (\<lambda>e. bind (logger_error (''Search failed: '' @ toString e)) (\<lambda>_.
                       ret Fallthrough)))
                 (\<lambda>found. case found of
                    Returned d \<Rightarrow> ret d
                  | Fallthrough \<Rightarrow> ret None)))"

subsection \<open>The resolver step by step\<close>

text \<open>
  An \<open>async\<close> function runs until its next \<open>await\<close>, gives way, and goes on when the
  awaited reply arrives. To let two resolvers proceed side by side, the resolver is
  written once more as a resumption: it is done, it has thrown, it logs a line and goes
  on, or it calls a collaborator and waits, with what it will do with the reply.
\<close>

datatype 'a proc =
    Done 'a
  | Fail error
  | Log string "'a proc"
  | AwaitLookup string "error + product option \<Rightarrow> 'a proc"
  | AwaitSearch string nat nat "error + result_set option \<Rightarrow> 'a proc"

primrec bind_proc :: "'a proc \<Rightarrow> ('a \<Rightarrow> 'b proc) \<Rightarrow> 'b proc" where
  "bind_proc (Done x) f = f x"
| "bind_proc (Fail e) f = Fail e"
| "bind_proc (Log msg k) f = Log msg (bind_proc k f)"
| "bind_proc (AwaitLookup code k) f = AwaitLookup code (\<lambda>out. bind_proc (k out) f)"
| "bind_proc (AwaitSearch q page pageSize k) f =
     AwaitSearch q page pageSize (\<lambda>out. bind_proc (k out) f)"

primrec try_catch_proc :: "'a proc \<Rightarrow> (error \<Rightarrow> 'a proc) \<Rightarrow> 'a proc" where
  "try_catch_proc (Done x) h = Done x"
| "try_catch_proc (Fail e) h = h e"
| "try_catch_proc (Log msg k) h = Log msg (try_catch_proc k h)"
| "try_catch_proc (AwaitLookup code k) h = AwaitLookup code (\<lambda>out. try_catch_proc (k out) h)"
| "try_catch_proc (AwaitSearch q page pageSize k) h =
     AwaitSearch q page pageSize (\<lambda>out. try_catch_proc (k out) h)"

text \<open>An awaited promise that rejects throws at the \<open>await\<close>.\<close>

definition settle :: "error + 'a \<Rightarrow> 'a proc" where
  "settle out = (case out of Inl e \<Rightarrow> Fail e | Inr x \<Rightarrow> Done x)"

definition lookup_proc :: "string \<Rightarrow> product option proc" where
  "lookup_proc code = AwaitLookup code settle"

definition search_proc :: "string \<Rightarrow> nat \<Rightarrow> nat \<Rightarrow> result_set option proc" where
  "search_proc q page pageSize = AwaitSearch q page pageSize settle"

definition log_proc :: "string \<Rightarrow> unit proc" where
  "log_proc msg = Log msg (Done ())"

text \<open>\<open>findProduct\<close>, lines 18 to 45, as a resumption; the text is that of \<open>findProduct\<close> above.\<close>

definition findProduct_steps :: "string \<Rightarrow> resolved option proc" where
  "findProduct_steps nameOrBarcode =
     (if blank nameOrBarcode then Done None
      else
        let query = trim nameOrBarcode in
        bind_proc
          (if isBarcode query then
             try_catch_proc
               (bind_proc (lookup_proc query) (\<lambda>p.
                  if p \<noteq> None then Done (Returned (Some (Bundle p))) else Done Fallthrough))
               (\<lambda>e. bind_proc (log_proc (''Barcode lookup failed: '' @ toString e)) (\<lambda>_.
                  Done Fallthrough))
           else Done Fallthrough)
          (\<lambda>direct. case direct of
             Returned d \<Rightarrow> Done d
           | Fallthrough \<Rightarrow>
               bind_proc
                 (try_catch_proc
                    (bind_proc (search_proc query 1 1) (\<lambda>results.
                       case first_barcode results of
                         Str code \<Rightarrow>
                           if code \<noteq> [] then
                             bind_proc (lookup_proc code) (\<lambda>p.
                               Done (Returned (Some (Bundle p))))
                           else Done Fallthrough
                       | _ \<Rightarrow> Done Fallthrough))
                    (\<lambda>e. bind_proc (log_proc (''Search failed: '' @ toString e)) (\<lambda>_.
                       Done Fallthrough)))
                 (\<lambda>found. case found of
                    Returned d \<Rightarrow> Done d
                  | Fallthrough \<Rightarrow> Done None)))"

text \<open>A resumption run alone, every reply awaited as soon as the call is made.\<close>

primrec run :: "('w, 'r) env \<Rightarrow> 'a proc \<Rightarrow> ('w, 'r, 'a) prog" where
  "run env (Done x) = (\<lambda>w. (Inr x, [], w))"
| "run env (Fail e) = (\<lambda>w. (Inl e, [], w))"
| "run env (Log msg k) =
     (\<lambda>w. case run env k w of (r, tr, w1) \<Rightarrow> (r, LogError msg # tr, w1))"
| "run env (AwaitLookup code k) =
     (\<lambda>w. case getProductByBarcode env code w of
        (out, w1) \<Rightarrow>
          (case run env (k out) w1 of (r, tr, w2) \<Rightarrow> (r, BarcodeLookup code out # tr, w2)))"
| "run env (AwaitSearch q page pageSize k) =
     (\<lambda>w. case searchProducts env q page pageSize w of
        (out, w1) \<Rightarrow>
          (case run env (k out) w1 of (r, tr, w2) \<Rightarrow> (r, Search q page pageSize out # tr, w2)))"

subsection \<open>Two resolvers at once\<close>

text \<open>
  Who acts: the handler itself, or one of the two resolvers it started. A step of a
  concurrent run is a collaborator call being issued, or an event as before: a reply
  arriving at the one who awaits it, or a line it logs.
\<close>

datatype pid = Handler | P1 | P2

datatype call = Lookup string | SearchFor string nat nat

datatype 'r step = Issue pid call | Did pid "'r event"

type_synonym ('w, 'r, 'a) conc = "'w \<Rightarrow> (error + 'a) \<times> 'r step list \<times> 'w"

text \<open>
  A started resolver has settled, or waits for the reply to the call it issued. The
  collaborator is called, in the world of that moment, when the call is issued; the
  reply is kept until it is delivered.
\<close>

datatype ('r, 'a) task = Settled "error + 'a" | Waiting "'r event" "'a proc"

text \<open>Run until the next \<open>await\<close>: log what is logged on the way and issue the call.\<close>

primrec advance :: "('w, 'r) env \<Rightarrow> pid \<Rightarrow> 'a proc \<Rightarrow> 'w \<Rightarrow> ('r, 'a) task \<times> 'r step list \<times> 'w" where
  "advance env p (Done x) = (\<lambda>w. (Settled (Inr x), [], w))"
| "advance env p (Fail e) = (\<lambda>w. (Settled (Inl e), [], w))"
| "advance env p (Log msg k) =
     (\<lambda>w. case advance env p k w of (t, tr, w1) \<Rightarrow> (t, Did p (LogError msg) # tr, w1))"
| "advance env p (AwaitLookup code k) =
     (\<lambda>w. case getProductByBarcode env code w of
        (out, w1) \<Rightarrow> (Waiting (BarcodeLookup code out) (k out), [Issue p (Lookup code)], w1))"
| "advance env p (AwaitSearch q page pageSize k) =
     (\<lambda>w. case searchProducts env q page pageSize w of
        (out, w1) \<Rightarrow>
          (Waiting (Search q page pageSize out) (k out),
           [Issue p (SearchFor q page pageSize)], w1))"

text \<open>The reply a task waits for arrives, and the task runs until its next \<open>await\<close>.\<close>

definition resume :: "('w, 'r) env \<Rightarrow> pid \<Rightarrow> ('r, 'a) task \<Rightarrow> 'w \<Rightarrow> ('r, 'a) task \<times> 'r step list \<times> 'w" where
  "resume env p t w =
     (case t of
        Settled r \<Rightarrow> (Settled r, [], w)
      | Waiting ev k \<Rightarrow> (case advance env p k w of (t1, tr, w1) \<Rightarrow> (t1, Did p ev # tr, w1)))"

text \<open>A resumption, and a task, run to the end with every reply delivered at once.\<close>

primrec finish :: "('w, 'r) env \<Rightarrow> pid \<Rightarrow> 'a proc \<Rightarrow> ('w, 'r, 'a) conc" where
  "finish env p (Done x) = (\<lambda>w. (Inr x, [], w))"
| "finish env p (Fail e) = (\<lambda>w. (Inl e, [], w))"
| "finish env p (Log msg k) =
     (\<lambda>w. case finish env p k w of (r, tr, w1) \<Rightarrow> (r, Did p (LogError msg) # tr, w1))"
| "finish env p (AwaitLookup code k) =
     (\<lambda>w. case getProductByBarcode env code w of
        (out, w1) \<Rightarrow>
          (case finish env p (k out) w1 of
             (r, tr, w2) \<Rightarrow>
               (r, Issue p (Lookup code) # Did p (BarcodeLookup code out) # tr, w2)))"
| "finish env p (AwaitSearch q page pageSize k) =
     (\<lambda>w. case searchProducts env q page pageSize w of
        (out, w1) \<Rightarrow>
          (case finish env p (k out) w1 of
             (r, tr, w2) \<Rightarrow>
               (r, Issue p (SearchFor q page pageSize) # Did p (Search q page pageSize out) # tr,
                w2)))"

definition finish_task :: "('w, 'r) env \<Rightarrow> pid \<Rightarrow> ('r, 'a) task \<Rightarrow> ('w, 'r, 'a) conc" where
  "finish_task env p t w =
     (case t of
        Settled r \<Rightarrow> (r, [], w)
      | Waiting ev k \<Rightarrow> (case finish env p k w of (r, tr, w1) \<Rightarrow> (r, Did p ev # tr, w1)))"

definition is_waiting :: "('r, 'a) task \<Rightarrow> bool" where
  "is_waiting t = (case t of Settled r \<Rightarrow> False | Waiting ev k \<Rightarrow> True)"

text \<open>
  Whether \<open>Promise.all\<close> of two tasks has settled, and how: it rejects as soon as one
  of them has thrown, and is fulfilled with the pair of results once both have one.
\<close>

fun verdict :: "('r, 'a) task \<Rightarrow> ('r, 'b) task \<Rightarrow> (error + 'a \<times> 'b) option" where
  "verdict (Settled (Inl e)) t2 = Some (Inl e)"
| "verdict t1 (Settled (Inl e)) = Some (Inl e)"
| "verdict (Settled (Inr x)) (Settled (Inr y)) = Some (Inr (x, y))"
| "verdict t1 t2 = None"

text \<open>
  Two started tasks run until \<open>Promise.all\<close> settles. The schedule is the order in
  which the replies arrive: its head says whose pending reply comes next (\<open>P2\<close>: the
  second task's, anything else: the first task's; the other one's if that task has
  settled). When the schedule is used up, the first task's replies come first.
\<close>

fun join ::
  "('w, 'r) env \<Rightarrow> pid list \<Rightarrow> ('r, 'a) task \<Rightarrow> ('r, 'b) task \<Rightarrow> ('w, 'r, 'a \<times> 'b) conc" where
  "join env [] t1 t2 w =
     (case verdict t1 t2 of
        Some r \<Rightarrow> (r, [], w)
      | None \<Rightarrow>
          (case finish_task env P1 t1 w of
             (Inl e, tr1, w1) \<Rightarrow> (Inl e, tr1, w1)
           | (Inr x, tr1, w1) \<Rightarrow>
               (case finish_task env P2 t2 w1 of
                  (Inl e, tr2, w2) \<Rightarrow> (Inl e, tr1 @ tr2, w2)
                | (Inr y, tr2, w2) \<Rightarrow> (Inr (x, y), tr1 @ tr2, w2))))"
| "join env (c # sched) t1 t2 w =
     (case verdict t1 t2 of
        Some r \<Rightarrow> (r, [], w)
      | None \<Rightarrow>
          if (c = P2 \<and> is_waiting t2) \<or> \<not> is_waiting t1 then
            (case resume env P2 t2 w of
               (t2a, tr, w1) \<Rightarrow>
                 (case join env sched t1 t2a w1 of (r, tr2, w2) \<Rightarrow> (r, tr @ tr2, w2)))
          else
            (case resume env P1 t1 w of
               (t1a, tr, w1) \<Rightarrow>
                 (case join env sched t1a t2 w1 of (r, tr2, w2) \<Rightarrow> (r, tr @ tr2, w2))))"

text \<open>
  \<open>await Promise.all([m1, m2])\<close>, line 129: the array is built first, so each of the two
  calls runs up to its first \<open>await\<close>, the first before the second; then the two go on
  as their replies arrive.
\<close>

definition promise_all2 ::
  "('w, 'r) env \<Rightarrow> pid list \<Rightarrow> 'a proc \<Rightarrow> 'b proc \<Rightarrow> ('w, 'r, 'a \<times> 'b) conc" where
  "promise_all2 env sched m1 m2 w =
     (case advance env P1 m1 w of
        (t1, tr1, w1) \<Rightarrow>
          (case advance env P2 m2 w1 of
             (t2, tr2, w2) \<Rightarrow>
               (case join env sched t1 t2 w2 of (r, tr3, w3) \<Rightarrow> (r, tr1 @ tr2 @ tr3, w3))))"

text \<open>What the handler does by itself, and what it does once a concurrent part is over.\<close>

definition by_handler :: "('w, 'r, 'a) prog \<Rightarrow> ('w, 'r, 'a) conc" where
  "by_handler m w = (case m w of (r, tr, w1) \<Rightarrow> (r, map (Did Handler) tr, w1))"

definition then_handler :: "('w, 'r, 'a) conc \<Rightarrow> ('a \<Rightarrow> ('w, 'r, 'b) prog) \<Rightarrow> ('w, 'r, 'b) conc" where
  "then_handler m f w =
     (case m w of
        (Inl e, tr, w1) \<Rightarrow> (Inl e, tr, w1)
      | (Inr x, tr, w1) \<Rightarrow>
          (case f x w1 of (r, tr2, w2) \<Rightarrow> (r, tr @ map (Did Handler) tr2, w2)))"

subsection \<open>The tool handlers\<close>

text \<open>The two shapes of answer: \<open>{ content: [{ type: 'text', text }], isError: true }\<close> and the same without the key.\<close>

definition error_result :: "string \<Rightarrow> tool_result" where
  "error_result msg = \<lparr>content = [TextContent msg], isError = Some True\<rparr>"

definition text_result :: "string \<Rightarrow> tool_result" where
  "text_result msg = \<lparr>content = [TextContent msg], isError = None\<rparr>"

text \<open>\<open>productData?.product\<close>\<close>

definition product_of :: "resolved option \<Rightarrow> product option" where
  "product_of productData = (case productData of None \<Rightarrow> None | Some d \<Rightarrow> product d)"

text \<open>The request literal of \<open>analyzeProduct\<close>, lines 102 to 109.\<close>

definition analysis_request :: "('w, 'r) env \<Rightarrow> product \<Rightarrow> request" where
  "analysis_request env p =
     \<lparr>messages = [(''user'', ''Analyze:'' @ [nl, nl] @ JSON_stringify env p (Some 2))],
      systemPrompt = ''Nutritional expert. Provide: 1) Overview 2) Nutrition 3) Ingredients 4) Allergens 5) Health 6) Recommendations'',
      hints = [''claude-3''],
      intelligencePriority = 9 / 10,
      includeContext = ''thisServer'',
      temperature = 3 / 10,
      maxTokens = 1500\<rparr>"

text \<open>The request literal of \<open>compareProducts\<close>, lines 134 to 141.\<close>

definition comparison_request :: "('w, 'r) env \<Rightarrow> product \<Rightarrow> product \<Rightarrow> request" where
  "comparison_request env p1 p2 =
     \<lparr>messages = [(''user'', ''Compare:'' @ [nl, nl] @ ''1:'' @ [nl] @ JSON_stringify env p1 None
                      @ [nl, nl] @ ''2:'' @ [nl] @ JSON_stringify env p2 None)],
      systemPrompt = ''Compare: 1) Overview 2) Nutrition 3) Ingredients 4) Health 5) Recommendation'',
      hints = [''claude-3''],
      intelligencePriority = 9 / 10,
      includeContext = ''thisServer'',
      temperature = 2 / 10,
      maxTokens = 2000\<rparr>"

text \<open>The handler of \<open>analyzeProduct\<close>, lines 90 to 115.\<close>

definition analyzeProduct :: "('w, 'r) env \<Rightarrow> string \<Rightarrow> ('w, 'r, tool_result) prog" where
  "analyzeProduct env nameOrBarcode =
     (if blank nameOrBarcode then ret (error_result ''Provide a product name or barcode.'')
      else
        bind (findProduct env nameOrBarcode) (\<lambda>productData.
          case product_of productData of
            None \<Rightarrow>
              ret (error_result
                     ([dq] @ nameOrBarcode @ [dq] @ '' not found. Try searchProducts first.''))
          | Some p \<Rightarrow>
              try_catch
                (bind (await_requestSampling env (analysis_request env p)) (\<lambda>res.
                   let header = ''# '' @ or_default (product_name p) ''Product''
                                @ '' ('' @ or_default (brands p) ''Unknown'' @ '')'' @ [nl]
                   in ret (text_result (header @ getResponseText env res))))
                (\<lambda>_. ret (text_result
                   (''# '' @ template (product_name p) @ [nl]
                    @ ''Brand: '' @ template (brands p) @ [nl]
                    @ ''Nutri-Score: '' @ template (nutriscore_grade p) @ [nl]
                    @ ''Ingredients: '' @ template (ingredients_text p))))))"

text \<open>
  The handler of \<open>compareProducts\<close>, lines 124 to 146. The schedule is the order in
  which the replies to the two resolvers arrive.
\<close>

definition compareProducts ::
  "('w, 'r) env \<Rightarrow> pid list \<Rightarrow> string \<Rightarrow> string \<Rightarrow> ('w, 'r, tool_result) conc" where
  "compareProducts env sched nameOrBarcode1 nameOrBarcode2 =
     (if blank nameOrBarcode1 \<or> blank nameOrBarcode2 then
        by_handler (ret (error_result ''Provide both products.''))
      else
        then_handler
          (promise_all2 env sched (findProduct_steps nameOrBarcode1)
             (findProduct_steps nameOrBarcode2))
          (\<lambda>(d1, d2).
             case product_of d1 of
               None \<Rightarrow> ret (error_result ([dq] @ nameOrBarcode1 @ [dq] @ '' not found.''))
             | Some p1 \<Rightarrow>
                 (case product_of d2 of
                    None \<Rightarrow> ret (error_result ([dq] @ nameOrBarcode2 @ [dq] @ '' not found.''))
                  | Some p2 \<Rightarrow>
                      try_catch
                        (bind (await_requestSampling env (comparison_request env p1 p2)) (\<lambda>res.
                           ret (text_result
                                  (''# '' @ template (product_name p1) @ '' vs ''
                                   @ template (product_name p2) @ [nl, nl]
                                   @ getResponseText env res))))
                        (\<lambda>_. ret (text_result
                           (''# '' @ template (product_name p1) @ '' vs ''
                            @ template (product_name p2) @ [nl]
                            @ ''Nutri-Score: '' @ template (nutriscore_grade p1) @ '' vs ''
                            @ template (nutriscore_grade p2)))))))"

text \<open>The handler of \<open>suggestRecipes\<close>, lines 154 to 170.\<close>

definition suggestRecipes :: "('w, 'r) env \<Rightarrow> string \<Rightarrow> ('w, 'r, tool_result) prog" where
  "suggestRecipes env nameOrBarcode =
     (if blank nameOrBarcode then ret (error_result ''Provide a product.'')
      else
        bind (findProduct env nameOrBarcode) (\<lambda>productData.
          case product_of productData of
            None \<Rightarrow> ret (error_result ([dq] @ nameOrBarcode @ [dq] @ '' not found.''))
          | Some p \<Rightarrow>
              try_catch
                (bind (await_requestSampling env (createRecipeSuggestionRequest env p)) (\<lambda>res.
                   ret (text_result
                          (''# Recipes using '' @ template (product_name p) @ [nl, nl]
                           @ getResponseText env res))))
                (\<lambda>e. ret (error_result (''Recipe generation failed: '' @ message e)))))"

subsection \<open>Reading a trace\<close>

text \<open>The barcodes looked up, the searches made and the sampling requests sent, in order.\<close>

fun lookup_codes :: "'r event list \<Rightarrow> string list" where
  "lookup_codes [] = []"
| "lookup_codes (BarcodeLookup code out # tr) = code # lookup_codes tr"
| "lookup_codes (ev # tr) = lookup_codes tr"

fun search_calls :: "'r event list \<Rightarrow> (string \<times> nat \<times> nat) list" where
  "search_calls [] = []"
| "search_calls (Search q page pageSize out # tr) = (q, page, pageSize) # search_calls tr"
| "search_calls (ev # tr) = search_calls tr"

fun sampling_requests :: "'r event list \<Rightarrow> request list" where
  "sampling_requests [] = []"
| "sampling_requests (Sampling req out # tr) = req # sampling_requests tr"
| "sampling_requests (ev # tr) = sampling_requests tr"

text \<open>
  A search hit, as the resolver tests it: the search did not throw and
  \<open>results?.products?.[0]?.barcode\<close> is truthy. The value is that barcode.
\<close>

definition hit :: "error + result_set option \<Rightarrow> string option" where
  "hit out =
     (case out of
        Inl e \<Rightarrow> None
      | Inr results \<Rightarrow>
          (case first_barcode results of
             Str code \<Rightarrow> if code \<noteq> [] then Some code else None
           | _ \<Rightarrow> None))"

text \<open>The events of one party in a concurrent run, all events of it, and who makes a step.\<close>

fun events_by :: "pid \<Rightarrow> 'r step list \<Rightarrow> 'r event list" where
  "events_by p [] = []"
| "events_by p (Did p' ev # tr) = (if p' = p then ev # events_by p tr else events_by p tr)"
| "events_by p (Issue p' c # tr) = events_by p tr"

fun events :: "'r step list \<Rightarrow> 'r event list" where
  "events [] = []"
| "events (Did p ev # tr) = ev # events tr"
| "events (Issue p c # tr) = events tr"

fun actor :: "'r step \<Rightarrow> pid" where
  "actor (Issue p c) = p"
| "actor (Did p ev) = p"

text \<open>The first collaborator call of a resolver whose identifier is not blank.\<close>

definition first_call :: "string \<Rightarrow> call" where
  "first_call nameOrBarcode =
     (if isBarcode (trim nameOrBarcode) then Lookup (trim nameOrBarcode)
      else SearchFor (trim nameOrBarcode) 1 1)"

text \<open>
  Whether a list of events is a whole run of a resumption, from its start to its end,
  and the outcome of that run: each logged line and each call is the one the resumption
  makes next, each reply is passed on to it, and nothing is left over at the end.
\<close>

primrec replay :: "'a proc \<Rightarrow> 'r event list \<Rightarrow> (error + 'a) option" where
  "replay (Done x) = (\<lambda>es. if es = [] then Some (Inr x) else None)"
| "replay (Fail e) = (\<lambda>es. if es = [] then Some (Inl e) else None)"
| "replay (Log msg k) =
     (\<lambda>es. case es of
        LogError m # es' \<Rightarrow> if m = msg then replay k es' else None
      | _ \<Rightarrow> None)"
| "replay (AwaitLookup code k) =
     (\<lambda>es. case es of
        BarcodeLookup c out # es' \<Rightarrow> if c = code then replay (k out) es' else None
      | _ \<Rightarrow> None)"
| "replay (AwaitSearch q page pageSize k) =
     (\<lambda>es. case es of
        Search q' page' pageSize' out # es' \<Rightarrow>
          if q' = q \<and> page' = page \<and> pageSize' = pageSize then replay (k out) es' else None
      | _ \<Rightarrow> None)"

definition replay_task :: "('r, 'a) task \<Rightarrow> 'r event list \<Rightarrow> (error + 'a) option" where
  "replay_task t es =
     (case t of
        Settled r \<Rightarrow> if es = [] then Some r else None
      | Waiting ev k \<Rightarrow>
          (case es of [] \<Rightarrow> None | e # es' \<Rightarrow> if e = ev then replay k es' else None))"

text \<open>A resumption that cannot throw, whatever the replies.\<close>

primrec nofail :: "'a proc \<Rightarrow> bool" where
  "nofail (Done x) = True"
| "nofail (Fail e) = False"
| "nofail (Log msg k) = nofail k"
| "nofail (AwaitLookup code k) = (\<forall>out. nofail (k out))"
| "nofail (AwaitSearch q page pageSize k) = (\<forall>out. nofail (k out))"

definition nofail_task :: "('r, 'a) task \<Rightarrow> bool" where
  "nofail_task t = (case t of Settled r \<Rightarrow> (case r of Inl e \<Rightarrow> False | Inr x \<Rightarrow> True) | Waiting ev k \<Rightarrow> nofail k)"

text \<open>A task that does not wait for a sampling reply.\<close>

definition quiet_task :: "('r, 'a) task \<Rightarrow> bool" where
  "quiet_task t = (case t of Settled r \<Rightarrow> True | Waiting ev k \<Rightarrow> sampling_requests [ev] = [])"

subsection \<open>Example collaborators\<close>

text \<open>
  A product database, a search index and a sampling gateway over a world that counts the
  collaborator calls made so far, so that an answer may depend on when the call is made.
\<close>

definition example_env ::
  "(string \<Rightarrow> nat \<Rightarrow> error + product option) \<Rightarrow> (string \<Rightarrow> nat \<Rightarrow> error + result_set option)
   \<Rightarrow> (nat \<Rightarrow> error + string) \<Rightarrow> (nat, string) env" where
  "example_env db idx llm =
     \<lparr>getProductByBarcode = (\<lambda>code w. (db code w, Suc w)),
      searchProducts = (\<lambda>q page pageSize w. (idx q w, Suc w)),
      requestSampling = (\<lambda>req w. (llm w, Suc w)),
      createRecipeSuggestionRequest = (\<lambda>p.
        \<lparr>messages = [(''user'', ''Recipes with '' @ template (product_name p))],
         systemPrompt = ''Chef'', hints = [''claude-3''], intelligencePriority = 8 / 10,
         includeContext = ''thisServer'', temperature = 7 / 10, maxTokens = 1000\<rparr>),
      getResponseText = (\<lambda>r. r),
      JSON_stringify = (\<lambda>p indent. template (product_name p))\<rparr>"

definition nutella :: product where
  "nutella =
     \<lparr>product_name = Str ''Nutella'', brands = Str ''Ferrero'',
      barcode = Str ''3017620422003'', nutriscore_grade = Str ''e'',
      ingredients_text = Str ''sugar, palm oil, hazelnuts''\<rparr>"

definition jif :: product where
  "jif =
     \<lparr>product_name = Str ''Jif'', brands = Str ''Smucker'',
      barcode = Str ''0051500255162'', nutriscore_grade = Str ''d'',
      ingredients_text = Str ''peanuts, salt''\<rparr>"

text \<open>A search summary that carries no barcode.\<close>

definition unlabelled :: product where
  "unlabelled =
     \<lparr>product_name = Str ''Nutella'', brands = Undefined, barcode = Undefined,
      nutriscore_grade = Undefined, ingredients_text = Undefined\<rparr>"

definition db :: "string \<Rightarrow> nat \<Rightarrow> error + product option" where
  "db code w =
     (if code = ''3017620422003'' then Inr (Some nutella)
      else if code = ''0051500255162'' then Inr (Some jif)
      else Inr None)"

definition idx :: "string \<Rightarrow> nat \<Rightarrow> error + result_set option" where
  "idx q w =
     (if q = ''nutella'' then Inr (Some \<lparr>products = Some [nutella]\<rparr>)
      else if q = ''jif'' then Inr (Some \<lparr>products = Some [jif]\<rparr>)
      else Inr (Some \<lparr>products = Some []\<rparr>))"

definition no_llm :: "nat \<Rightarrow> error + string" where
  "no_llm w = Inl (Error ''Error'' ''Sampling not supported'')"

text \<open>Both products are on record and searchable; sampling always fails.\<close>

definition shop :: "(nat, string) env" where
  "shop = example_env db idx no_llm"

text \<open>The index still lists a product that the database no longer has.\<close>

definition stale :: "(nat, string) env" where
  "stale = example_env (\<lambda>code w. Inr None) idx no_llm"

text \<open>The index answers with a summary that has no barcode.\<close>

definition summaries_only :: "(nat, string) env" where
  "summaries_only =
     example_env db (\<lambda>q w. Inr (Some \<lparr>products = Some [unlabelled]\<rparr>)) no_llm"

text \<open>The index answers every query with two results, Jif first.\<close>

definition two_results :: "(nat, string) env" where
  "two_results = example_env db (\<lambda>q w. Inr (Some \<lparr>products = Some [jif, nutella]\<rparr>)) no_llm"

text \<open>The index answers, every lookup is refused by the network.\<close>

definition db_down :: "(nat, string) env" where
  "db_down = example_env (\<lambda>code w. Inl (Error ''Error'' ''ECONNREFUSED'')) idx no_llm"

text \<open>Every lookup and every search is refused by the network.\<close>

definition offline :: "(nat, string) env" where
  "offline =
     example_env (\<lambda>code w. Inl (Error ''Error'' ''ECONNREFUSED''))
       (\<lambda>q w. Inl (Error ''Error'' ''ECONNREFUSED'')) no_llm"

section \<open>Properties\<close>

lemmas prog_defs = ret_def bind_def try_catch_def await_getProductByBarcode_def
  await_searchProducts_def await_requestSampling_def logger_error_def Let_def

lemmas prog_splits = prod.splits sum.splits option.splits jsval.splits flow.splits if_splits

lemmas proc_defs = settle_def lookup_proc_def search_proc_def log_proc_def

lemmas example_defs = shop_def stale_def summaries_only_def two_results_def db_down_def
  offline_def example_env_def db_def idx_def no_llm_def nutella_def jif_def unlabelled_def

lemmas string_defs = blank_def trim_def is_space_def isBarcode_def is_digit_def
  first_barcode_def product_of_def template_def toString_def nl_def dq_def

lemma isBarcode_not_blank: "isBarcode (trim n) \<Longrightarrow> \<not> blank n"
  by (auto simp: isBarcode_def blank_def)

lemma all_Some_neq: "(\<forall>p. Some p \<noteq> x) \<longleftrightarrow> x = None"
  by (cases x) auto

subsection \<open>Resumptions and concurrent runs\<close>

lemma sampling_requests_append:
  "sampling_requests (xs @ ys) = sampling_requests xs @ sampling_requests ys"
  by (induction xs rule: sampling_requests.induct) simp_all

text \<open>The resumption run alone is \<open>findProduct\<close>.\<close>

lemma run_findProduct_steps: "run env (findProduct_steps n) w = findProduct env n w"
  by (auto simp: findProduct_steps_def findProduct_def prog_defs proc_defs split: prog_splits)

lemma events_by_append: "events_by p (xs @ ys) = events_by p xs @ events_by p ys"
  by (induction xs rule: events_by.induct) simp_all

lemma events_append: "events (xs @ ys) = events xs @ events ys"
  by (induction xs rule: events.induct) simp_all

lemma events_by_other: "\<forall>s\<in>set tr. actor s = p \<Longrightarrow> p' \<noteq> p \<Longrightarrow> events_by p' tr = []"
  by (induction tr rule: events_by.induct) auto

lemma events_by_P1_none: "\<forall>s\<in>set tr. actor s = P2 \<Longrightarrow> events_by P1 tr = []"
  by (rule events_by_other [of tr P2 P1]) simp_all

lemma events_by_P2_none: "\<forall>s\<in>set tr. actor s = P1 \<Longrightarrow> events_by P2 tr = []"
  by (rule events_by_other [of tr P1 P2]) simp_all

lemma events_by_handler: "p \<noteq> Handler \<Longrightarrow> events_by p (map (Did Handler) h) = []"
  by (induction h) auto

lemma advance_actor: "advance env p m w = (t, tr, w1) \<Longrightarrow> \<forall>s\<in>set tr. actor s = p"
  by (induction m arbitrary: w t tr w1) (auto split: prod.splits)

lemma advance_no_sampling: "advance env p m w = (t, tr, w1) \<Longrightarrow> sampling_requests (events tr) = []"
  by (induction m arbitrary: w t tr w1) (auto split: prod.splits)

lemma advance_replay:
  "advance env p m w = (t, tr, w1) \<Longrightarrow> replay_task t es = Some r
   \<Longrightarrow> replay m (events_by p tr @ es) = Some r"
  by (induction m arbitrary: w t tr w1)
     (auto simp: replay_task_def split: prod.splits list.splits if_splits)

lemma advance_nofail: "advance env p m w = (t, tr, w1) \<Longrightarrow> nofail m \<Longrightarrow> nofail_task t"
  by (induction m arbitrary: w t tr w1) (auto simp: nofail_task_def split: prod.splits)

lemma finish_actor: "finish env p m w = (r, tr, w1) \<Longrightarrow> \<forall>s\<in>set tr. actor s = p"
  by (induction m arbitrary: w r tr w1) (fastforce split: prod.splits)+

lemma finish_no_sampling: "finish env p m w = (r, tr, w1) \<Longrightarrow> sampling_requests (events tr) = []"
  by (induction m arbitrary: w r tr w1) (fastforce split: prod.splits)+

lemma finish_replay: "finish env p m w = (r, tr, w1) \<Longrightarrow> replay m (events_by p tr) = Some r"
  by (induction m arbitrary: w r tr w1) (auto split: prod.splits)

lemma finish_nofail: "finish env p m w = (r, tr, w1) \<Longrightarrow> nofail m \<Longrightarrow> \<exists>x. r = Inr x"
  by (induction m arbitrary: w r tr w1) (fastforce split: prod.splits)+

lemma advance_quiet: "advance env p m w = (t, tr, w1) \<Longrightarrow> quiet_task t"
  by (induction m arbitrary: w t tr w1) (auto simp: quiet_task_def split: prod.splits)

lemma resume_actor:
  assumes "resume env p t w = (t1, tr, w1)"
  shows "\<forall>s\<in>set tr. actor s = p"
proof (cases t)
  case (Settled r)
  with assms show ?thesis by (simp add: resume_def)
next
  case (Waiting ev k)
  obtain t' tr' w' where adv: "advance env p k w = (t', tr', w')"
    by (cases "advance env p k w") auto
  with assms Waiting have "tr = Did p ev # tr'"
    by (simp add: resume_def)
  with advance_actor [OF adv] show ?thesis by simp
qed

lemma resume_quiet:
  assumes "resume env p t w = (t1, tr, w1)" and "quiet_task t"
  shows "sampling_requests (events tr) = [] \<and> quiet_task t1"
proof (cases t)
  case (Settled r)
  with assms show ?thesis by (simp add: resume_def)
next
  case (Waiting ev k)
  obtain t' tr' w' where adv: "advance env p k w = (t', tr', w')"
    by (cases "advance env p k w") auto
  with assms Waiting have tr: "tr = Did p ev # tr'" and t1: "t1 = t'"
    by (simp_all add: resume_def)
  from assms(2) Waiting have "sampling_requests [ev] = []"
    by (simp add: quiet_task_def)
  then have "sampling_requests (ev # events tr') = sampling_requests (events tr')"
    using sampling_requests_append [of "[ev]" "events tr'"] by simp
  with tr t1 advance_no_sampling [OF adv] advance_quiet [OF adv] show ?thesis by simp
qed

lemma resume_replay:
  assumes "resume env p t w = (t1, tr, w1)" and "replay_task t1 es = Some r"
  shows "replay_task t (events_by p tr @ es) = Some r"
proof (cases t)
  case (Settled r')
  with assms show ?thesis by (simp add: resume_def)
next
  case (Waiting ev k)
  obtain t' tr' w' where adv: "advance env p k w = (t', tr', w')"
    by (cases "advance env p k w") auto
  with assms Waiting have tr: "tr = Did p ev # tr'" and t1: "t1 = t'"
    by (simp_all add: resume_def)
  from advance_replay [OF adv] assms(2) t1
  have "replay k (events_by p tr' @ es) = Some r" by simp
  with tr Waiting show ?thesis by (simp add: replay_task_def)
qed

lemma resume_nofail:
  assumes "resume env p t w = (t1, tr, w1)" and "nofail_task t"
  shows "nofail_task t1"
proof (cases t)
  case (Settled r')
  with assms show ?thesis by (simp add: resume_def)
next
  case (Waiting ev k)
  obtain t' tr' w' where adv: "advance env p k w = (t', tr', w')"
    by (cases "advance env p k w") auto
  with assms Waiting have t1: "t1 = t'" and "nofail k"
    by (simp_all add: resume_def nofail_task_def)
  with advance_nofail [OF adv] show ?thesis by simp
qed

lemma finish_task_actor:
  assumes "finish_task env p t w = (r, tr, w1)"
  shows "\<forall>s\<in>set tr. actor s = p"
proof (cases t)
  case (Settled r')
  with assms show ?thesis by (simp add: finish_task_def)
next
  case (Waiting ev k)
  obtain r' tr' w' where fin: "finish env p k w = (r', tr', w')"
    by (cases "finish env p k w") auto
  with assms Waiting have "tr = Did p ev # tr'"
    by (simp add: finish_task_def)
  with finish_actor [OF fin] show ?thesis by simp
qed

lemma finish_task_quiet:
  assumes "finish_task env p t w = (r, tr, w1)" and "quiet_task t"
  shows "sampling_requests (events tr) = []"
proof (cases t)
  case (Settled r')
  with assms show ?thesis by (simp add: finish_task_def)
next
  case (Waiting ev k)
  obtain r' tr' w' where fin: "finish env p k w = (r', tr', w')"
    by (cases "finish env p k w") auto
  with assms Waiting have tr: "tr = Did p ev # tr'"
    by (simp add: finish_task_def)
  from assms(2) Waiting have "sampling_requests [ev] = []"
    by (simp add: quiet_task_def)
  then have "sampling_requests (ev # events tr') = sampling_requests (events tr')"
    using sampling_requests_append [of "[ev]" "events tr'"] by simp
  with tr finish_no_sampling [OF fin] show ?thesis by simp
qed

lemma finish_task_replay:
  assumes "finish_task env p t w = (r, tr, w1)"
  shows "replay_task t (events_by p tr) = Some r"
proof (cases t)
  case (Settled r')
  with assms show ?thesis by (simp add: finish_task_def replay_task_def)
next
  case (Waiting ev k)
  obtain r' tr' w' where fin: "finish env p k w = (r', tr', w')"
    by (cases "finish env p k w") auto
  with assms Waiting have tr: "tr = Did p ev # tr'" and "r = r'"
    by (simp_all add: finish_task_def)
  with finish_replay [OF fin] Waiting show ?thesis by (simp add: replay_task_def)
qed

lemma finish_task_nofail:
  assumes "finish_task env p t w = (r, tr, w1)" and "nofail_task t"
  shows "\<exists>x. r = Inr x"
proof (cases t)
  case (Settled r')
  with assms show ?thesis by (auto simp: finish_task_def nofail_task_def split: sum.splits)
next
  case (Waiting ev k)
  obtain r' tr' w' where fin: "finish env p k w = (r', tr', w')"
    by (cases "finish env p k w") auto
  with assms Waiting have "r = r'" and "nofail k"
    by (simp_all add: finish_task_def nofail_task_def)
  with finish_nofail [OF fin] show ?thesis by simp
qed

lemma verdict_pair:
  "verdict t1 t2 = Some (Inr (x, y)) \<Longrightarrow> t1 = Settled (Inr x) \<and> t2 = Settled (Inr y)"
  by (induction t1 t2 rule: verdict.induct) simp_all

lemma verdict_nofail:
  "verdict t1 t2 = Some r \<Longrightarrow> nofail_task t1 \<Longrightarrow> nofail_task t2 \<Longrightarrow> \<exists>x y. r = Inr (x, y)"
  by (induction t1 t2 rule: verdict.induct) (auto simp: nofail_task_def)

lemma join_Nil_cases:
  assumes "join env [] t1 t2 w = (r, tr, w1)"
  obtains (settled) "verdict t1 t2 = Some r" and "tr = []"
  | (thrown) e where "finish_task env P1 t1 w = (Inl e, tr, w1)" and "r = Inl e"
  | (both) x r2 tr1 wa tr2 where "finish_task env P1 t1 w = (Inr x, tr1, wa)"
      and "finish_task env P2 t2 wa = (r2, tr2, w1)" and "tr = tr1 @ tr2"
      and "r = (case r2 of Inl e \<Rightarrow> Inl e | Inr y \<Rightarrow> Inr (x, y))"
  using assms
  by (auto split: option.splits prod.splits sum.splits)

lemma join_Cons_cases:
  assumes "join env (c # sched) t1 t2 w = (r, tr, w1)"
  obtains (settled) "verdict t1 t2 = Some r" and "tr = []"
  | (second) t2a tra wa trb where "resume env P2 t2 w = (t2a, tra, wa)"
      and "join env sched t1 t2a wa = (r, trb, w1)" and "tr = tra @ trb"
  | (first) t1a tra wa trb where "resume env P1 t1 w = (t1a, tra, wa)"
      and "join env sched t1a t2 wa = (r, trb, w1)" and "tr = tra @ trb"
  using assms
  by (auto split: option.splits prod.splits if_splits)

lemma join_actor:
  "join env sched t1 t2 w = (r, tr, w1) \<Longrightarrow> \<forall>s\<in>set tr. actor s = P1 \<or> actor s = P2"
proof (induction sched arbitrary: t1 t2 w r tr w1)
  case Nil
  then show ?case
    by (cases rule: join_Nil_cases) (auto dest: finish_task_actor)
next
  case (Cons c sched)
  from Cons.prems show ?case
  proof (cases rule: join_Cons_cases)
    case settled
    then show ?thesis by simp
  next
    case (second t2a tra wa trb)
    with resume_actor [OF second(1)] Cons.IH [OF second(2)] show ?thesis by auto
  next
    case (first t1a tra wa trb)
    with resume_actor [OF first(1)] Cons.IH [OF first(2)] show ?thesis by auto
  qed
qed

lemma join_quiet:
  "join env sched t1 t2 w = (r, tr, w1) \<Longrightarrow> quiet_task t1 \<Longrightarrow> quiet_task t2
   \<Longrightarrow> sampling_requests (events tr) = []"
proof (induction sched arbitrary: t1 t2 w r tr w1)
  case Nil
  from Nil(1) show ?case
  proof (cases rule: join_Nil_cases)
    case settled
    then show ?thesis by simp
  next
    case (thrown e)
    with finish_task_quiet [OF thrown(1) Nil(2)] show ?thesis by simp
  next
    case (both x r2 tr1 wa tr2)
    with finish_task_quiet [OF both(1) Nil(2)] finish_task_quiet [OF both(2) Nil(3)]
    show ?thesis by (simp add: events_append sampling_requests_append)
  qed
next
  case (Cons c sched)
  from Cons.prems(1) show ?case
  proof (cases rule: join_Cons_cases)
    case settled
    then show ?thesis by simp
  next
    case (second t2a tra wa trb)
    from resume_quiet [OF second(1) Cons.prems(3)]
    have "sampling_requests (events tra) = []" and "quiet_task t2a" by simp_all
    with Cons.IH [OF second(2) Cons.prems(2)] second(3) show ?thesis
      by (simp add: events_append sampling_requests_append)
  next
    case (first t1a tra wa trb)
    from resume_quiet [OF first(1) Cons.prems(2)]
    have "sampling_requests (events tra) = []" and "quiet_task t1a" by simp_all
    with Cons.IH [OF first(2) _ Cons.prems(3)] first(3) show ?thesis
      by (simp add: events_append sampling_requests_append)
  qed
qed

lemma join_nofail:
  "join env sched t1 t2 w = (r, tr, w1) \<Longrightarrow> nofail_task t1 \<Longrightarrow> nofail_task t2
   \<Longrightarrow> \<exists>x y. r = Inr (x, y)"
proof (induction sched arbitrary: t1 t2 w r tr w1)
  case Nil
  from Nil(1) show ?case
  proof (cases rule: join_Nil_cases)
    case settled
    with verdict_nofail Nil(2,3) show ?thesis by blast
  next
    case (thrown e)
    with finish_task_nofail [OF thrown(1) Nil(2)] show ?thesis by simp
  next
    case (both x r2 tr1 wa tr2)
    with finish_task_nofail [OF both(2) Nil(3)] show ?thesis by auto
  qed
next
  case (Cons c sched)
  from Cons.prems(1) show ?case
  proof (cases rule: join_Cons_cases)
    case settled
    with verdict_nofail Cons.prems(2,3) show ?thesis by blast
  next
    case (second t2a tra wa trb)
    from Cons.IH [OF second(2) Cons.prems(2) resume_nofail [OF second(1) Cons.prems(3)]]
    show ?thesis .
  next
    case (first t1a tra wa trb)
    from Cons.IH [OF first(2) resume_nofail [OF first(1) Cons.prems(2)] Cons.prems(3)]
    show ?thesis .
  qed
qed

lemma join_replay:
  "join env sched t1 t2 w = (Inr (x, y), tr, w1) \<Longrightarrow>
     replay_task t1 (events_by P1 tr) = Some (Inr x)
   \<and> replay_task t2 (events_by P2 tr) = Some (Inr y)"
proof (induction sched arbitrary: t1 t2 w tr w1)
  case Nil
  then show ?case
  proof (cases rule: join_Nil_cases)
    case settled
    from verdict_pair [OF settled(1)] settled(2) show ?thesis
      by (simp add: replay_task_def)
  next
    case (thrown e)
    then show ?thesis by simp
  next
    case (both x' r2 tr1 wa tr2)
    from both(4) have r2: "r2 = Inr y" and x: "x' = x"
      by (auto split: sum.splits)
    from finish_task_replay [OF both(1)] finish_task_replay [OF both(2)]
      finish_task_actor [OF both(1)] finish_task_actor [OF both(2)] both(3) r2 x
    show ?thesis
      by (simp add: events_by_append events_by_P1_none events_by_P2_none)
  qed
next
  case (Cons c sched)
  from Cons.prems show ?case
  proof (cases rule: join_Cons_cases)
    case settled
    from verdict_pair [OF settled(1)] settled(2) show ?thesis
      by (simp add: replay_task_def)
  next
    case (second t2a tra wa trb)
    from Cons.IH [OF second(2)]
    have one: "replay_task t1 (events_by P1 trb) = Some (Inr x)"
      and two: "replay_task t2a (events_by P2 trb) = Some (Inr y)" by simp_all
    from resume_replay [OF second(1) two] resume_actor [OF second(1)] one second(3)
    show ?thesis
      by (simp add: events_by_append events_by_P1_none events_by_P2_none)
  next
    case (first t1a tra wa trb)
    from Cons.IH [OF first(2)]
    have one: "replay_task t1a (events_by P1 trb) = Some (Inr x)"
      and two: "replay_task t2 (events_by P2 trb) = Some (Inr y)" by simp_all
    from resume_replay [OF first(1) one] resume_actor [OF first(1)] two first(3)
    show ?thesis
      by (simp add: events_by_append events_by_P1_none events_by_P2_none)
  qed
qed

lemma promise_all2_cases:
  assumes "promise_all2 env sched m1 m2 w = (r, tr, w3)"
  obtains t1 tr1 w1 t2 tr2 w2 tr3 where "advance env P1 m1 w = (t1, tr1, w1)"
    and "advance env P2 m2 w1 = (t2, tr2, w2)"
    and "join env sched t1 t2 w2 = (r, tr3, w3)" and "tr = tr1 @ tr2 @ tr3"
  using assms
  by (auto simp: promise_all2_def split: prod.splits)

lemma promise_all2_actor:
  assumes "promise_all2 env sched m1 m2 w = (r, tr, w3)"
  shows "\<forall>s\<in>set tr. actor s \<noteq> Handler"
  using assms
proof (cases rule: promise_all2_cases)
  case (1 t1 tr1 w1 t2 tr2 w2 tr3)
  with advance_actor [OF 1(1)] advance_actor [OF 1(2)] join_actor [OF 1(3)]
  show ?thesis by auto
qed

lemma promise_all2_quiet:
  assumes "promise_all2 env sched m1 m2 w = (r, tr, w3)"
  shows "sampling_requests (events tr) = []"
  using assms
proof (cases rule: promise_all2_cases)
  case (1 t1 tr1 w1 t2 tr2 w2 tr3)
  with advance_no_sampling [OF 1(1)] advance_no_sampling [OF 1(2)]
    join_quiet [OF 1(3) advance_quiet [OF 1(1)] advance_quiet [OF 1(2)]]
  show ?thesis by (simp add: events_append sampling_requests_append)
qed

lemma promise_all2_nofail:
  assumes "promise_all2 env sched m1 m2 w = (r, tr, w3)" and "nofail m1" and "nofail m2"
  shows "\<exists>x y. r = Inr (x, y)"
  using assms(1)
proof (cases rule: promise_all2_cases)
  case (1 t1 tr1 w1 t2 tr2 w2 tr3)
  from join_nofail [OF 1(3) advance_nofail [OF 1(1) assms(2)] advance_nofail [OF 1(2) assms(3)]]
  show ?thesis .
qed

lemma promise_all2_replay:
  assumes "promise_all2 env sched m1 m2 w = (Inr (x, y), tr, w3)"
  shows "replay m1 (events_by P1 tr) = Some (Inr x) \<and> replay m2 (events_by P2 tr) = Some (Inr y)"
  using assms
proof (cases rule: promise_all2_cases)
  case (1 t1 tr1 w1 t2 tr2 w2 tr3)
  from join_replay [OF 1(3)]
  have one: "replay_task t1 (events_by P1 tr3) = Some (Inr x)"
    and two: "replay_task t2 (events_by P2 tr3) = Some (Inr y)" by simp_all
  from advance_replay [OF 1(1) one] advance_replay [OF 1(2) two]
    advance_actor [OF 1(1)] advance_actor [OF 1(2)] 1(4)
  show ?thesis
    by (simp add: events_by_append events_by_P1_none events_by_P2_none)
qed

lemma nofail_findProduct_steps: "nofail (findProduct_steps n)"
  by (auto simp: findProduct_steps_def proc_defs Let_def split: prog_splits)

lemma advance_findProduct_steps:
  "\<not> blank n \<Longrightarrow> \<exists>t w1. advance env p (findProduct_steps n) w = (t, [Issue p (first_call n)], w1)"
  by (auto simp: findProduct_steps_def first_call_def proc_defs Let_def split: prod.splits)

lemma promise_all2_first_steps:
  assumes "\<not> blank n1" and "\<not> blank n2"
    and "promise_all2 env sched (findProduct_steps n1) (findProduct_steps n2) w = (r, tr, w3)"
  shows "take 2 tr = [Issue P1 (first_call n1), Issue P2 (first_call n2)]"
  using assms(3)
proof (cases rule: promise_all2_cases)
  case (1 t1 tr1 w1 t2 tr2 w2 tr3)
  from advance_findProduct_steps [OF assms(1), of env P1 w] 1(1)
  have "tr1 = [Issue P1 (first_call n1)]" by auto
  moreover from advance_findProduct_steps [OF assms(2), of env P2 w1] 1(2)
  have "tr2 = [Issue P2 (first_call n2)]" by auto
  ultimately show ?thesis using 1(4) by simp
qed

text \<open>The handler of \<open>compareProducts\<close> once both resolvers have settled.\<close>

lemma compareProducts_settled:
  assumes "\<not> blank n1" and "\<not> blank n2"
    and "promise_all2 env sched (findProduct_steps n1) (findProduct_steps n2) w
           = (Inr (d1, d2), tr, w1)"
  shows "compareProducts env sched n1 n2 w =
     (case product_of d1 of
        None \<Rightarrow> (Inr (error_result ([dq] @ n1 @ [dq] @ '' not found.'')), tr, w1)
      | Some p1 \<Rightarrow>
          (case product_of d2 of
             None \<Rightarrow> (Inr (error_result ([dq] @ n2 @ [dq] @ '' not found.'')), tr, w1)
           | Some p2 \<Rightarrow>
               (case requestSampling env (comparison_request env p1 p2) w1 of
                  (Inl e, w2) \<Rightarrow>
                    (Inr (text_result
                       (''# '' @ template (product_name p1) @ '' vs ''
                        @ template (product_name p2) @ [nl]
                        @ ''Nutri-Score: '' @ template (nutriscore_grade p1) @ '' vs ''
                        @ template (nutriscore_grade p2))),
                     tr @ [Did Handler (Sampling (comparison_request env p1 p2) (Inl e))], w2)
                | (Inr res, w2) \<Rightarrow>
                    (Inr (text_result
                       (''# '' @ template (product_name p1) @ '' vs ''
                        @ template (product_name p2) @ [nl, nl] @ getResponseText env res)),
                     tr @ [Did Handler (Sampling (comparison_request env p1 p2) (Inr res))],
                     w2))))"
  using assms
  by (auto simp: compareProducts_def then_handler_def prog_defs split: option.splits prod.splits sum.splits)

subsection \<open>The resolver\<close>

text \<open>
  C1. The claim: a bundle returned by \<open>findProduct\<close> always holds a non-null product, also
  on the path of the search and the second fetch. The code on that path wraps whatever
  the second lookup resolved to: when the index lists a barcode that the database no
  longer has, the resolver returns the bundle \<open>{ product: null }\<close>.
\<close>

theorem findProduct_wraps_absent_product:
  "findProduct stale ''nutella'' 0 =
     (Inr (Some (Bundle None)),
      [Search ''nutella'' 1 1 (Inr (Some \<lparr>products = Some [nutella]\<rparr>)),
       BarcodeLookup ''3017620422003'' (Inr None)],
      2)"
  by (simp add: findProduct_def prog_defs example_defs string_defs)

text \<open>
  C2, as stated, fails twice over. A search that succeeds with one result leads to no
  second fetch and to \<open>null\<close> when that result carries no barcode; and when the second
  fetch is made and throws, the resolver returns \<open>null\<close>, not a bundle.
\<close>

theorem search_result_without_bundle_counterexample:
  "findProduct summaries_only ''nutella'' 0 =
     (Inr None, [Search ''nutella'' 1 1 (Inr (Some \<lparr>products = Some [unlabelled]\<rparr>))], 1)
   \<and> findProduct db_down ''nutella'' 0 =
     (Inr None,
      [Search ''nutella'' 1 1 (Inr (Some \<lparr>products = Some [nutella]\<rparr>)),
       BarcodeLookup ''3017620422003'' (Inl (Error ''Error'' ''ECONNREFUSED'')),
       LogError ''Search failed: Error: ECONNREFUSED''],
      2)"
  by (simp add: findProduct_def prog_defs example_defs string_defs)

text \<open>
  C2, amended. Whenever a run of the resolver makes a search that succeeds: if the first
  result carries a non-empty barcode, the search (made with the trimmed identifier, page
  1, page size 1) is followed at once by a lookup of that barcode; when that lookup
  resolves to a product, that product is returned as the bundle; when it throws, the
  error is logged and the resolver returns \<open>null\<close>. If there is no first result or it
  has no barcode, the search is the last event and the resolver returns \<open>null\<close>. (Of a
  second lookup that resolves to no product, only that it was made is stated.)
\<close>

theorem search_hit_second_fetch:
  assumes "findProduct env n w = (res, tr, w')"
    and "Search q page pageSize (Inr results) \<in> set tr"
  shows "(\<forall>code. first_barcode results = Str code \<and> code \<noteq> [] \<longrightarrow>
            (\<exists>p. suffix [Search (trim n) 1 1 (Inr results),
                         BarcodeLookup code (Inr (Some p))] tr
                  \<and> res = Inr (Some (Bundle (Some p))))
          \<or> suffix [Search (trim n) 1 1 (Inr results), BarcodeLookup code (Inr None)] tr
          \<or> (\<exists>e. suffix [Search (trim n) 1 1 (Inr results), BarcodeLookup code (Inl e),
                           LogError (''Search failed: '' @ toString e)] tr
                  \<and> res = Inr None))
       \<and> (\<not> truthy (first_barcode results) \<longrightarrow>
            res = Inr None \<and> suffix [Search (trim n) 1 1 (Inr results)] tr)"
  using assms
  by (auto simp: findProduct_def prog_defs truthy_def suffix_Cons all_Some_neq
      split: prog_splits)

theorem search_hit_second_fetch_witness:
  "(let results = Some \<lparr>products = Some [jif, nutella]\<rparr>;
        tr = [Search ''spread'' 1 1 (Inr results),
              BarcodeLookup ''0051500255162'' (Inr (Some jif))];
        summary = Some \<lparr>products = Some [unlabelled]\<rparr>
    in findProduct two_results ''spread'' 0 = (Inr (Some (Bundle (Some jif))), tr, 2)
       \<and> Search ''spread'' 1 1 (Inr results) \<in> set tr
       \<and> first_barcode results = Str ''0051500255162''
       \<and> suffix [Search (trim ''spread'') 1 1 (Inr results),
                  BarcodeLookup ''0051500255162'' (Inr (Some jif))] tr
       \<and> findProduct summaries_only ''nutella'' 0
           = (Inr None, [Search ''nutella'' 1 1 (Inr summary)], 1)
       \<and> \<not> truthy (first_barcode summary)
       \<and> suffix [Search (trim ''nutella'') 1 1 (Inr summary)]
            [Search ''nutella'' 1 1 (Inr summary) :: string event])"
proof -
  let ?results = "Some \<lparr>products = Some [jif, nutella]\<rparr>"
  let ?tr = "[Search ''spread'' 1 1 (Inr ?results),
              BarcodeLookup ''0051500255162'' (Inr (Some jif)) :: string event]"
  let ?summary = "Some \<lparr>products = Some [unlabelled]\<rparr>"
  let ?tr2 = "[Search ''nutella'' 1 1 (Inr ?summary) :: string event]"
  have run: "findProduct two_results ''spread'' 0 = (Inr (Some (Bundle (Some jif))), ?tr, 2)"
    by (simp add: findProduct_def prog_defs example_defs string_defs)
  have made: "Search ''spread'' 1 1 (Inr ?results) \<in> set ?tr"
    by simp
  have code: "first_barcode ?results = Str ''0051500255162''"
    by (simp add: first_barcode_def jif_def)
  have "(\<exists>p. suffix [Search (trim ''spread'') 1 1 (Inr ?results),
                      BarcodeLookup ''0051500255162'' (Inr (Some p))] ?tr
             \<and> (Inr (Some (Bundle (Some jif))) :: error + resolved option)
                 = Inr (Some (Bundle (Some p))))
        \<or> suffix [Search (trim ''spread'') 1 1 (Inr ?results),
                   BarcodeLookup ''0051500255162'' (Inr None)] ?tr
        \<or> (\<exists>e. suffix [Search (trim ''spread'') 1 1 (Inr ?results),
                        BarcodeLookup ''0051500255162'' (Inl e),
                        LogError (''Search failed: '' @ toString e)] ?tr
             \<and> (Inr (Some (Bundle (Some jif))) :: error + resolved option) = Inr None)"
    using search_hit_second_fetch [OF run made] code by blast
  then have hit: "suffix [Search (trim ''spread'') 1 1 (Inr ?results),
                          BarcodeLookup ''0051500255162'' (Inr (Some jif))] ?tr"
    by (auto simp: suffix_Cons)
  have run2: "findProduct summaries_only ''nutella'' 0 = (Inr None, ?tr2, 1)"
    by (simp add: findProduct_def prog_defs example_defs string_defs)
  have made2: "Search ''nutella'' 1 1 (Inr ?summary) \<in> set ?tr2"
    by simp
  have none: "\<not> truthy (first_barcode ?summary)"
    by (simp add: first_barcode_def unlabelled_def truthy_def)
  from search_hit_second_fetch [OF run2 made2] none
  have miss: "suffix [Search (trim ''nutella'') 1 1 (Inr ?summary)] ?tr2"
    by blast
  from run made code hit run2 none miss show ?thesis
    unfolding Let_def by blast
qed

text \<open>
  C4. For an identifier that is all digits after trimming, when the direct lookup
  resolves to a product the resolver returns that product as the bundle; the lookup is
  the only collaborator call, so no search is made.
\<close>

theorem direct_lookup_returns_immediately:
  assumes "isBarcode (trim n)"
    and "getProductByBarcode env (trim n) w = (Inr (Some p), w1)"
  shows "findProduct env n w =
           (Inr (Some (Bundle (Some p))), [BarcodeLookup (trim n) (Inr (Some p))], w1)
       \<and> search_calls (fst (snd (findProduct env n w))) = []"
  using assms isBarcode_not_blank [of n]
  by (simp add: findProduct_def prog_defs)

theorem direct_lookup_returns_immediately_witness:
  "isBarcode (trim '' 3017620422003 '')
   \<and> getProductByBarcode shop (trim '' 3017620422003 '') 0 = (Inr (Some nutella), 1)
   \<and> findProduct shop '' 3017620422003 '' 0 =
       (Inr (Some (Bundle (Some nutella))),
        [BarcodeLookup ''3017620422003'' (Inr (Some nutella))], 1)
   \<and> search_calls (fst (snd (findProduct shop '' 3017620422003 '' 0))) = []"
proof -
  have t: "trim '' 3017620422003 '' = ''3017620422003''"
    by (simp add: trim_def is_space_def)
  have digits: "isBarcode (trim '' 3017620422003 '')"
    unfolding t by (simp add: isBarcode_def is_digit_def)
  have found: "getProductByBarcode shop (trim '' 3017620422003 '') 0 = (Inr (Some nutella), 1)"
    unfolding t by (simp add: example_defs)
  from direct_lookup_returns_immediately [OF digits found] digits found show ?thesis
    unfolding t by simp
qed

text \<open>
  C5. For a non-blank identifier that is not all digits after trimming, the first
  collaborator call is the search with the trimmed identifier, page 1 and page size 1;
  no other search is made; and the only barcode lookup, if any, is the one of the
  barcode of the first result after a hit. So no direct lookup is made first.
\<close>

theorem non_digit_search_only:
  assumes "\<not> blank n" and "\<not> isBarcode (trim n)"
    and "searchProducts env (trim n) 1 1 w = (out, w1)"
    and "findProduct env n w = (res, tr, w')"
  shows "tr \<noteq> [] \<and> hd tr = Search (trim n) 1 1 out \<and> search_calls (tl tr) = []
       \<and> lookup_codes (tl tr) = (case hit out of None \<Rightarrow> [] | Some code \<Rightarrow> [code])
       \<and> lookup_codes tr = lookup_codes (tl tr)"
  using assms
  by (auto simp: findProduct_def prog_defs hit_def split: prog_splits)

theorem non_digit_search_only_witness:
  "(let out = Inr (Some \<lparr>products = Some [nutella]\<rparr>);
        tr = [Search ''nutella'' 1 1 out, BarcodeLookup ''3017620422003'' (Inr (Some nutella))]
    in \<not> blank ''nutella'' \<and> \<not> isBarcode (trim ''nutella'')
       \<and> searchProducts shop (trim ''nutella'') 1 1 0 = (out, 1)
       \<and> findProduct shop ''nutella'' 0 = (Inr (Some (Bundle (Some nutella))), tr, 2)
       \<and> hd tr = Search (trim ''nutella'') 1 1 out
       \<and> search_calls (tl tr) = []
       \<and> lookup_codes (tl tr) = (case hit out of None \<Rightarrow> [] | Some code \<Rightarrow> [code]))"
proof -
  let ?out = "Inr (Some \<lparr>products = Some [nutella]\<rparr>) :: error + result_set option"
  let ?tr = "[Search ''nutella'' 1 1 ?out,
              BarcodeLookup ''3017620422003'' (Inr (Some nutella)) :: string event]"
  have a: "\<not> blank ''nutella''"
    by (simp add: string_defs)
  have b: "\<not> isBarcode (trim ''nutella'')"
    by (simp add: string_defs)
  have c: "searchProducts shop (trim ''nutella'') 1 1 0 = (?out, 1)"
    by (simp add: example_defs string_defs)
  have d: "findProduct shop ''nutella'' 0 = (Inr (Some (Bundle (Some nutella))), ?tr, 2)"
    by (simp add: findProduct_def prog_defs example_defs string_defs)
  from non_digit_search_only [OF a b c d] a b c d show ?thesis
    unfolding Let_def by blast
qed

text \<open>
  C6. An identifier that is empty or only white space resolves to \<open>null\<close> at once: no
  event at all, and the world is left as it was.
\<close>

theorem blank_resolves_absent:
  assumes "blank n"
  shows "findProduct env n w = (Inr None, [], w)"
  using assms by (simp add: findProduct_def ret_def)

theorem blank_resolves_absent_witness:
  "blank [CHR '' '', CHR 0x09, CHR '' ''] \<and> blank ''''
   \<and> findProduct shop [CHR '' '', CHR 0x09, CHR '' ''] 0 = (Inr None, [], 0)"
proof -
  have b: "blank [CHR '' '', CHR 0x09, CHR '' '']"
    by (simp add: blank_def trim_def is_space_def)
  have "blank ''''"
    by (simp add: blank_def trim_def)
  with blank_resolves_absent [OF b, of shop 0] b show ?thesis
    by simp
qed

text \<open>
  C9. Whatever the collaborators do, the resolver returns a value and never throws. When
  the direct lookup throws, the error is logged next and the search is still made; when
  the search throws, or the lookup after the search throws, the error is logged last and
  the resolver returns \<open>null\<close>.
\<close>

theorem findProduct_never_throws:
  assumes "findProduct env n w = (res, tr, w')"
  shows "(\<exists>d. res = Inr d)
       \<and> (\<forall>code e. tr \<noteq> [] \<and> hd tr = BarcodeLookup code (Inl e) \<longrightarrow>
             tr ! 1 = LogError (''Barcode lookup failed: '' @ toString e)
             \<and> search_calls tr = [(trim n, 1, 1)])
       \<and> (\<forall>q page pageSize e. Search q page pageSize (Inl e) \<in> set tr \<longrightarrow>
             last tr = LogError (''Search failed: '' @ toString e) \<and> res = Inr None)
       \<and> (\<forall>code e. BarcodeLookup code (Inl e) \<in> set (tl tr) \<longrightarrow>
             last tr = LogError (''Search failed: '' @ toString e) \<and> res = Inr None)"
  using assms
  by (auto simp: findProduct_def prog_defs split: prog_splits)

theorem findProduct_never_throws_witness:
  "(let refused = Error ''Error'' ''ECONNREFUSED'';
        tr = [BarcodeLookup ''3017620422003'' (Inl refused),
              LogError ''Barcode lookup failed: Error: ECONNREFUSED'',
              Search ''3017620422003'' 1 1 (Inl refused),
              LogError ''Search failed: Error: ECONNREFUSED''];
        tr2 = [Search ''nutella'' 1 1 (Inr (Some \<lparr>products = Some [nutella]\<rparr>)),
               BarcodeLookup ''3017620422003'' (Inl refused),
               LogError ''Search failed: Error: ECONNREFUSED'']
    in findProduct offline ''3017620422003'' 0 = (Inr None, tr, 2)
       \<and> tr ! 1 = LogError (''Barcode lookup failed: '' @ toString refused)
       \<and> search_calls tr = [(trim ''3017620422003'', 1, 1)]
       \<and> last tr = LogError (''Search failed: '' @ toString refused)
       \<and> findProduct db_down ''nutella'' 0 = (Inr None, tr2, 2)
       \<and> BarcodeLookup ''3017620422003'' (Inl refused) \<in> set (tl tr2)
       \<and> last tr2 = LogError (''Search failed: '' @ toString refused))"
proof -
  let ?refused = "Error ''Error'' ''ECONNREFUSED''"
  let ?tr = "[BarcodeLookup ''3017620422003'' (Inl ?refused),
              LogError ''Barcode lookup failed: Error: ECONNREFUSED'',
              Search ''3017620422003'' 1 1 (Inl ?refused),
              LogError ''Search failed: Error: ECONNREFUSED'' :: string event]"
  let ?tr2 = "[Search ''nutella'' 1 1 (Inr (Some \<lparr>products = Some [nutella]\<rparr>)),
               BarcodeLookup ''3017620422003'' (Inl ?refused),
               LogError ''Search failed: Error: ECONNREFUSED'' :: string event]"
  have run: "findProduct offline ''3017620422003'' 0 = (Inr None, ?tr, 2)"
    by (simp add: findProduct_def prog_defs example_defs string_defs)
  have first: "hd ?tr = BarcodeLookup ''3017620422003'' (Inl ?refused)"
    and search: "Search ''3017620422003'' 1 1 (Inl ?refused) \<in> set ?tr"
    by simp_all
  from findProduct_never_throws [OF run] first search
  have one: "?tr ! 1 = LogError (''Barcode lookup failed: '' @ toString ?refused)
       \<and> search_calls ?tr = [(trim ''3017620422003'', 1, 1)]
       \<and> last ?tr = LogError (''Search failed: '' @ toString ?refused)"
    by blast
  have run2: "findProduct db_down ''nutella'' 0 = (Inr None, ?tr2, 2)"
    by (simp add: findProduct_def prog_defs example_defs string_defs)
  have fetch: "BarcodeLookup ''3017620422003'' (Inl ?refused) \<in> set (tl ?tr2)"
    by simp
  from findProduct_never_throws [OF run2] fetch
  have two: "last ?tr2 = LogError (''Search failed: '' @ toString ?refused)"
    by blast
  from run one run2 fetch two show ?thesis
    unfolding Let_def by blast
qed

subsection \<open>The tool handlers\<close>

text \<open>
  C3, as stated, fails for the comparison tool: its fallback text is made of the two
  product names and the two nutrition grades only. Neither a brand nor an ingredients
  text of the resolved products appears in it. (Here the reply to the second resolver's
  search arrives first.)
\<close>

theorem compare_fallback_counterexample:
  "compareProducts shop [P2, P1, P1, P2] ''nutella'' ''jif'' 0 =
     (Inr \<lparr>content = [TextContent (''# Nutella vs Jif'' @ [nl] @ ''Nutri-Score: e vs d'')],
           isError = None\<rparr>,
      [Issue P1 (SearchFor ''nutella'' 1 1),
       Issue P2 (SearchFor ''jif'' 1 1),
       Did P2 (Search ''jif'' 1 1 (Inr (Some \<lparr>products = Some [jif]\<rparr>))),
       Issue P2 (Lookup ''0051500255162''),
       Did P1 (Search ''nutella'' 1 1 (Inr (Some \<lparr>products = Some [nutella]\<rparr>))),
       Issue P1 (Lookup ''3017620422003''),
       Did P1 (BarcodeLookup ''3017620422003'' (Inr (Some nutella))),
       Did P2 (BarcodeLookup ''0051500255162'' (Inr (Some jif))),
       Did Handler (Sampling (comparison_request shop nutella jif)
         (Inl (Error ''Error'' ''Sampling not supported'')))],
      5)
   \<and> brands nutella = Str ''Ferrero''
   \<and> \<not> sublist ''Ferrero'' (''# Nutella vs Jif'' @ [nl] @ ''Nutri-Score: e vs d'')
   \<and> ingredients_text jif = Str ''peanuts, salt''
   \<and> \<not> sublist ''peanuts, salt'' (''# Nutella vs Jif'' @ [nl] @ ''Nutri-Score: e vs d'')"
  by code_simp

text \<open>
  C3, amended. When resolution succeeds and the sampling gateway throws, the answer has
  no \<open>isError\<close> key and its text is computed from the resolved products alone: for the
  analysis tool from name, brand, nutrition grade and ingredients text; for the
  comparison tool, in whatever order the replies to the two resolvers arrive, from the
  two names and the two nutrition grades. The failed sampling call is the last step:
  the gateway is not tried again.
\<close>

theorem sampling_failure_fallback:
  "(\<not> blank n \<and> findProduct env n w = (Inr d, tr, w1) \<and> product_of d = Some p
      \<and> requestSampling env (analysis_request env p) w1 = (Inl e, w2) \<longrightarrow>
    analyzeProduct env n w =
      (Inr \<lparr>content = [TextContent (''# '' @ template (product_name p) @ [nl]
                @ ''Brand: '' @ template (brands p) @ [nl]
                @ ''Nutri-Score: '' @ template (nutriscore_grade p) @ [nl]
                @ ''Ingredients: '' @ template (ingredients_text p))], isError = None\<rparr>,
       tr @ [Sampling (analysis_request env p) (Inl e)], w2))
   \<and> (\<not> blank n1 \<and> \<not> blank n2
      \<and> promise_all2 env sched (findProduct_steps n1) (findProduct_steps n2) w0
          = (Inr (d1, d2), steps, w3)
      \<and> product_of d1 = Some p1 \<and> product_of d2 = Some p2
      \<and> requestSampling env (comparison_request env p1 p2) w3 = (Inl e', w4) \<longrightarrow>
    compareProducts env sched n1 n2 w0 =
      (Inr \<lparr>content = [TextContent (''# '' @ template (product_name p1) @ '' vs ''
                @ template (product_name p2) @ [nl]
                @ ''Nutri-Score: '' @ template (nutriscore_grade p1) @ '' vs ''
                @ template (nutriscore_grade p2))], isError = None\<rparr>,
       steps @ [Did Handler (Sampling (comparison_request env p1 p2) (Inl e'))], w4)
    \<and> replay (findProduct_steps n1) (events_by P1 steps) = Some (Inr d1)
    \<and> replay (findProduct_steps n2) (events_by P2 steps) = Some (Inr d2))"
proof (intro conjI impI)
  assume "\<not> blank n \<and> findProduct env n w = (Inr d, tr, w1) \<and> product_of d = Some p
      \<and> requestSampling env (analysis_request env p) w1 = (Inl e, w2)"
  then show "analyzeProduct env n w =
      (Inr \<lparr>content = [TextContent (''# '' @ template (product_name p) @ [nl]
                @ ''Brand: '' @ template (brands p) @ [nl]
                @ ''Nutri-Score: '' @ template (nutriscore_grade p) @ [nl]
                @ ''Ingredients: '' @ template (ingredients_text p))], isError = None\<rparr>,
       tr @ [Sampling (analysis_request env p) (Inl e)], w2)"
    by (simp add: analyzeProduct_def prog_defs text_result_def)
next
  assume h: "\<not> blank n1 \<and> \<not> blank n2
      \<and> promise_all2 env sched (findProduct_steps n1) (findProduct_steps n2) w0
          = (Inr (d1, d2), steps, w3)
      \<and> product_of d1 = Some p1 \<and> product_of d2 = Some p2
      \<and> requestSampling env (comparison_request env p1 p2) w3 = (Inl e', w4)"
  then have a: "\<not> blank n1" and b: "\<not> blank n2"
    and all: "promise_all2 env sched (findProduct_steps n1) (findProduct_steps n2) w0
          = (Inr (d1, d2), steps, w3)" by simp_all
  from compareProducts_settled [OF a b all] h
  show "compareProducts env sched n1 n2 w0 =
      (Inr \<lparr>content = [TextContent (''# '' @ template (product_name p1) @ '' vs ''
                @ template (product_name p2) @ [nl]
                @ ''Nutri-Score: '' @ template (nutriscore_grade p1) @ '' vs ''
                @ template (nutriscore_grade p2))], isError = None\<rparr>,
       steps @ [Did Handler (Sampling (comparison_request env p1 p2) (Inl e'))], w4)"
    by (simp add: text_result_def)
  from promise_all2_replay [OF all]
  show "replay (findProduct_steps n1) (events_by P1 steps) = Some (Inr d1)"
    and "replay (findProduct_steps n2) (events_by P2 steps) = Some (Inr d2)" by simp_all
qed

theorem sampling_failure_fallback_witness:
  "(let tr1 = [Search ''nutella'' 1 1 (Inr (Some \<lparr>products = Some [nutella]\<rparr>)),
               BarcodeLookup ''3017620422003'' (Inr (Some nutella))];
        steps = [Issue P1 (SearchFor ''nutella'' 1 1),
                 Issue P2 (SearchFor ''jif'' 1 1),
                 Did P2 (Search ''jif'' 1 1 (Inr (Some \<lparr>products = Some [jif]\<rparr>))),
                 Issue P2 (Lookup ''0051500255162''),
                 Did P1 (Search ''nutella'' 1 1 (Inr (Some \<lparr>products = Some [nutella]\<rparr>))),
                 Issue P1 (Lookup ''3017620422003''),
                 Did P1 (BarcodeLookup ''3017620422003'' (Inr (Some nutella))),
                 Did P2 (BarcodeLookup ''0051500255162'' (Inr (Some jif)))];
        e = Error ''Error'' ''Sampling not supported''
    in \<not> blank ''nutella'' \<and> \<not> blank ''jif''
       \<and> findProduct shop ''nutella'' 0 = (Inr (Some (Bundle (Some nutella))), tr1, 2)
       \<and> promise_all2 shop [P2, P1, P1, P2] (findProduct_steps ''nutella'')
            (findProduct_steps ''jif'') 0
           = (Inr (Some (Bundle (Some nutella)), Some (Bundle (Some jif))), steps, 4)
       \<and> product_of (Some (Bundle (Some nutella))) = Some nutella
       \<and> product_of (Some (Bundle (Some jif))) = Some jif
       \<and> requestSampling shop (analysis_request shop nutella) 2 = (Inl e, 3)
       \<and> requestSampling shop (comparison_request shop nutella jif) 4 = (Inl e, 5)
       \<and> analyzeProduct shop ''nutella'' 0 =
           (Inr \<lparr>content = [TextContent (''# Nutella'' @ [nl] @ ''Brand: Ferrero'' @ [nl]
                     @ ''Nutri-Score: e'' @ [nl]
                     @ ''Ingredients: sugar, palm oil, hazelnuts'')], isError = None\<rparr>,
            tr1 @ [Sampling (analysis_request shop nutella) (Inl e)], 3)
       \<and> compareProducts shop [P2, P1, P1, P2] ''nutella'' ''jif'' 0 =
           (Inr \<lparr>content = [TextContent (''# Nutella vs Jif'' @ [nl]
                     @ ''Nutri-Score: e vs d'')], isError = None\<rparr>,
            steps @ [Did Handler (Sampling (comparison_request shop nutella jif) (Inl e))], 5))"
proof -
  let ?tr1 = "[Search ''nutella'' 1 1 (Inr (Some \<lparr>products = Some [nutella]\<rparr>)),
               BarcodeLookup ''3017620422003'' (Inr (Some nutella)) :: string event]"
  let ?steps = "[Issue P1 (SearchFor ''nutella'' 1 1),
                 Issue P2 (SearchFor ''jif'' 1 1),
                 Did P2 (Search ''jif'' 1 1 (Inr (Some \<lparr>products = Some [jif]\<rparr>))),
                 Issue P2 (Lookup ''0051500255162''),
                 Did P1 (Search ''nutella'' 1 1 (Inr (Some \<lparr>products = Some [nutella]\<rparr>))),
                 Issue P1 (Lookup ''3017620422003''),
                 Did P1 (BarcodeLookup ''3017620422003'' (Inr (Some nutella))),
                 Did P2 (BarcodeLookup ''0051500255162'' (Inr (Some jif))) :: string step]"
  let ?e = "Error ''Error'' ''Sampling not supported''"
  have hyps1: "\<not> blank ''nutella''
      \<and> findProduct shop ''nutella'' 0 = (Inr (Some (Bundle (Some nutella))), ?tr1, 2)
      \<and> product_of (Some (Bundle (Some nutella))) = Some nutella
      \<and> requestSampling shop (analysis_request shop nutella) 2 = (Inl ?e, 3)"
    by (simp add: findProduct_def prog_defs example_defs string_defs)
  have hyps2: "\<not> blank ''nutella'' \<and> \<not> blank ''jif''
      \<and> promise_all2 shop [P2, P1, P1, P2] (findProduct_steps ''nutella'')
            (findProduct_steps ''jif'') 0
          = (Inr (Some (Bundle (Some nutella)), Some (Bundle (Some jif))), ?steps, 4)
      \<and> product_of (Some (Bundle (Some nutella))) = Some nutella
      \<and> product_of (Some (Bundle (Some jif))) = Some jif
      \<and> requestSampling shop (comparison_request shop nutella jif) 4 = (Inl ?e, 5)"
    by code_simp
  from sampling_failure_fallback [THEN conjunct1, THEN mp, OF hyps1]
  have analyze: "analyzeProduct shop ''nutella'' 0 =
           (Inr \<lparr>content = [TextContent (''# Nutella'' @ [nl] @ ''Brand: Ferrero'' @ [nl]
                     @ ''Nutri-Score: e'' @ [nl]
                     @ ''Ingredients: sugar, palm oil, hazelnuts'')], isError = None\<rparr>,
            ?tr1 @ [Sampling (analysis_request shop nutella) (Inl ?e)], 3)"
    by (simp add: nutella_def template_def)
  from sampling_failure_fallback [THEN conjunct2, THEN mp, OF hyps2]
  have compare: "compareProducts shop [P2, P1, P1, P2] ''nutella'' ''jif'' 0 =
           (Inr \<lparr>content = [TextContent (''# Nutella vs Jif'' @ [nl]
                     @ ''Nutri-Score: e vs d'')], isError = None\<rparr>,
            ?steps @ [Did Handler (Sampling (comparison_request shop nutella jif) (Inl ?e))], 5)"
    by (simp add: nutella_def jif_def template_def)
  from hyps1 hyps2 analyze compare show ?thesis
    unfolding Let_def by blast
qed

text \<open>
  C7. In a comparison whose two identifiers pass validation, in whatever order the
  replies to the two resolvers arrive: when the first resolves to nothing, the answer is
  the not-found message of the first identifier, whatever the second resolved to; when
  the first resolves to a product and the second to nothing, the answer is the not-found
  message of the second. Both answers carry \<open>isError = true\<close>, and the steps are
  those of the two resolvers, each a whole run ending in what it resolved to, and none
  of them a sampling request.
\<close>

theorem compare_not_found:
  assumes "\<not> blank n1" and "\<not> blank n2"
    and "promise_all2 env sched (findProduct_steps n1) (findProduct_steps n2) w
           = (Inr (d1, d2), steps, w1)"
  shows "(product_of d1 = None \<longrightarrow>
            compareProducts env sched n1 n2 w =
              (Inr \<lparr>content = [TextContent ([dq] @ n1 @ [dq] @ '' not found.'')],
                    isError = Some True\<rparr>,
               steps, w1))
       \<and> (product_of d1 \<noteq> None \<and> product_of d2 = None \<longrightarrow>
            compareProducts env sched n1 n2 w =
              (Inr \<lparr>content = [TextContent ([dq] @ n2 @ [dq] @ '' not found.'')],
                    isError = Some True\<rparr>,
               steps, w1))
       \<and> sampling_requests (events steps) = []
       \<and> replay (findProduct_steps n1) (events_by P1 steps) = Some (Inr d1)
       \<and> replay (findProduct_steps n2) (events_by P2 steps) = Some (Inr d2)"
  using compareProducts_settled [OF assms] promise_all2_quiet [OF assms(3)]
    promise_all2_replay [OF assms(3)]
  by (auto simp: error_result_def)

theorem compare_not_found_witness:
  "(let steps = [Issue P1 (SearchFor ''nutella'' 1 1),
                 Issue P2 (Lookup ''9999999999999''),
                 Did P1 (Search ''nutella'' 1 1 (Inr (Some \<lparr>products = Some [nutella]\<rparr>))),
                 Issue P1 (Lookup ''3017620422003''),
                 Did P2 (BarcodeLookup ''9999999999999'' (Inr None)),
                 Issue P2 (SearchFor ''9999999999999'' 1 1),
                 Did P1 (BarcodeLookup ''3017620422003'' (Inr (Some nutella))),
                 Did P2 (Search ''9999999999999'' 1 1 (Inr (Some \<lparr>products = Some []\<rparr>)))];
        steps2 = [Issue P1 (SearchFor ''zzz'' 1 1),
                  Issue P2 (Lookup ''9999999999999''),
                  Did P2 (BarcodeLookup ''9999999999999'' (Inr None)),
                  Issue P2 (SearchFor ''9999999999999'' 1 1),
                  Did P1 (Search ''zzz'' 1 1 (Inr (Some \<lparr>products = Some []\<rparr>))),
                  Did P2 (Search ''9999999999999'' 1 1 (Inr (Some \<lparr>products = Some []\<rparr>)))]
    in \<not> blank ''nutella'' \<and> \<not> blank ''9999999999999'' \<and> \<not> blank ''zzz''
       \<and> promise_all2 shop [P1, P2] (findProduct_steps ''nutella'')
            (findProduct_steps ''9999999999999'') 0
           = (Inr (Some (Bundle (Some nutella)), None), steps, 4)
       \<and> compareProducts shop [P1, P2] ''nutella'' ''9999999999999'' 0 =
           (Inr \<lparr>content = [TextContent ([dq] @ ''9999999999999'' @ [dq] @ '' not found.'')],
                 isError = Some True\<rparr>,
            steps, 4)
       \<and> sampling_requests (events steps) = []
       \<and> promise_all2 shop [P2] (findProduct_steps ''zzz'')
            (findProduct_steps ''9999999999999'') 0
           = (Inr (None, None), steps2, 3)
       \<and> compareProducts shop [P2] ''zzz'' ''9999999999999'' 0 =
           (Inr \<lparr>content = [TextContent ([dq] @ ''zzz'' @ [dq] @ '' not found.'')],
                 isError = Some True\<rparr>,
            steps2, 3))"
proof -
  let ?steps = "[Issue P1 (SearchFor ''nutella'' 1 1),
                 Issue P2 (Lookup ''9999999999999''),
                 Did P1 (Search ''nutella'' 1 1 (Inr (Some \<lparr>products = Some [nutella]\<rparr>))),
                 Issue P1 (Lookup ''3017620422003''),
                 Did P2 (BarcodeLookup ''9999999999999'' (Inr None)),
                 Issue P2 (SearchFor ''9999999999999'' 1 1),
                 Did P1 (BarcodeLookup ''3017620422003'' (Inr (Some nutella))),
                 Did P2 (Search ''9999999999999'' 1 1 (Inr (Some \<lparr>products = Some []\<rparr>)))
                 :: string step]"
  let ?steps2 = "[Issue P1 (SearchFor ''zzz'' 1 1),
                  Issue P2 (Lookup ''9999999999999''),
                  Did P2 (BarcodeLookup ''9999999999999'' (Inr None)),
                  Issue P2 (SearchFor ''9999999999999'' 1 1),
                  Did P1 (Search ''zzz'' 1 1 (Inr (Some \<lparr>products = Some []\<rparr>))),
                  Did P2 (Search ''9999999999999'' 1 1 (Inr (Some \<lparr>products = Some []\<rparr>)))
                  :: string step]"
  have a: "\<not> blank ''nutella''" and b: "\<not> blank ''9999999999999''" and c: "\<not> blank ''zzz''"
    by (simp_all add: string_defs)
  have r1: "promise_all2 shop [P1, P2] (findProduct_steps ''nutella'')
            (findProduct_steps ''9999999999999'') 0
           = (Inr (Some (Bundle (Some nutella)), None), ?steps, 4)"
    by code_simp
  have r2: "promise_all2 shop [P2] (findProduct_steps ''zzz'')
            (findProduct_steps ''9999999999999'') 0
           = (Inr (None, None), ?steps2, 3)"
    by code_simp
  have found: "product_of (Some (Bundle (Some nutella))) \<noteq> None"
    and absent: "product_of None = None"
    by (simp_all add: product_of_def)
  from compare_not_found [OF a b r1] found absent
  have second: "compareProducts shop [P1, P2] ''nutella'' ''9999999999999'' 0 =
           (Inr \<lparr>content = [TextContent ([dq] @ ''9999999999999'' @ [dq] @ '' not found.'')],
                 isError = Some True\<rparr>,
            ?steps, 4)
       \<and> sampling_requests (events ?steps) = []"
    by blast
  from compare_not_found [OF c b r2] absent
  have both: "compareProducts shop [P2] ''zzz'' ''9999999999999'' 0 =
           (Inr \<lparr>content = [TextContent ([dq] @ ''zzz'' @ [dq] @ '' not found.'')],
                 isError = Some True\<rparr>,
            ?steps2, 3)"
    by blast
  from a b c r1 r2 second both show ?thesis
    unfolding Let_def by blast
qed

text \<open>
  C8. When the product resolves and the sampling gateway throws, the recipe tool
  answers with \<open>isError = true\<close> and the text \<open>Recipe generation failed:\<close> followed by
  the message of the error thrown; no summary of the product is composed.
\<close>

theorem recipes_sampling_failure_is_error:
  assumes "\<not> blank n"
    and "findProduct env n w = (Inr d, tr, w1)"
    and "product_of d = Some p"
    and "requestSampling env (createRecipeSuggestionRequest env p) w1 = (Inl e, w2)"
  shows "suggestRecipes env n w =
     (Inr \<lparr>content = [TextContent (''Recipe generation failed: '' @ message e)],
           isError = Some True\<rparr>,
      tr @ [Sampling (createRecipeSuggestionRequest env p) (Inl e)], w2)"
  using assms
  by (simp add: suggestRecipes_def prog_defs error_result_def)

theorem recipes_sampling_failure_is_error_witness:
  "(let tr = [Search ''nutella'' 1 1 (Inr (Some \<lparr>products = Some [nutella]\<rparr>)),
              BarcodeLookup ''3017620422003'' (Inr (Some nutella))];
        e = Error ''Error'' ''Sampling not supported''
    in \<not> blank ''nutella''
       \<and> findProduct shop ''nutella'' 0 = (Inr (Some (Bundle (Some nutella))), tr, 2)
       \<and> product_of (Some (Bundle (Some nutella))) = Some nutella
       \<and> requestSampling shop (createRecipeSuggestionRequest shop nutella) 2 = (Inl e, 3)
       \<and> suggestRecipes shop ''nutella'' 0 =
           (Inr \<lparr>content = [TextContent ''Recipe generation failed: Sampling not supported''],
                 isError = Some True\<rparr>,
            tr @ [Sampling (createRecipeSuggestionRequest shop nutella) (Inl e)], 3))"
proof -
  let ?tr = "[Search ''nutella'' 1 1 (Inr (Some \<lparr>products = Some [nutella]\<rparr>)),
              BarcodeLookup ''3017620422003'' (Inr (Some nutella)) :: string event]"
  let ?e = "Error ''Error'' ''Sampling not supported''"
  have a: "\<not> blank ''nutella''"
    by (simp add: string_defs)
  have b: "findProduct shop ''nutella'' 0 = (Inr (Some (Bundle (Some nutella))), ?tr, 2)"
    by (simp add: findProduct_def prog_defs example_defs string_defs)
  have c: "product_of (Some (Bundle (Some nutella))) = Some nutella"
    by (simp add: product_of_def)
  have d: "requestSampling shop (createRecipeSuggestionRequest shop nutella) 2 = (Inl ?e, 3)"
    by (simp add: example_defs)
  from recipes_sampling_failure_is_error [OF a b c d] a b c d show ?thesis
    unfolding Let_def by simp
qed

text \<open>
  C10. In a comparison whose two identifiers pass validation, whatever the collaborators
  answer and in whatever order their replies arrive: the first two steps are the first
  call of the first resolver and the first call of the second, so the second resolver
  is started before any reply has reached the first; the steps of each resolver form a
  whole run of it, from its first call to its result, whatever the other resolves to;
  and everything the handler does itself comes after all the steps of the two
  resolvers. The handler answers and does not throw.
\<close>

theorem resolvers_start_together_and_both_finish:
  assumes "\<not> blank n1" and "\<not> blank n2"
    and "compareProducts env sched n1 n2 w = (res, steps, w')"
  shows "take 2 steps = [Issue P1 (first_call n1), Issue P2 (first_call n2)]
       \<and> (\<exists>d1 d2. replay (findProduct_steps n1) (events_by P1 steps) = Some (Inr d1)
                 \<and> replay (findProduct_steps n2) (events_by P2 steps) = Some (Inr d2))
       \<and> (\<exists>pre h. steps = pre @ map (Did Handler) h \<and> (\<forall>s\<in>set pre. actor s \<noteq> Handler))
       \<and> (\<exists>answer. res = Inr answer)"
proof -
  obtain r pre wj
    where all: "promise_all2 env sched (findProduct_steps n1) (findProduct_steps n2) w
                  = (r, pre, wj)"
    by (cases "promise_all2 env sched (findProduct_steps n1) (findProduct_steps n2) w") auto
  from promise_all2_nofail [OF all nofail_findProduct_steps nofail_findProduct_steps]
  obtain d1 d2 where r: "r = Inr (d1, d2)" by blast
  note settled = compareProducts_settled [OF assms(1,2) all [unfolded r]]
  from settled assms(3)
  have answer: "\<exists>answer. res = Inr answer"
    by (auto split: option.splits prod.splits sum.splits)
  from assms all r
  have "\<exists>h. steps = pre @ map (Did Handler) h"
    by (auto simp: compareProducts_def then_handler_def split: prod.splits)
  with answer
  have shape: "(\<exists>h. steps = pre @ map (Did Handler) h) \<and> (\<exists>answer. res = Inr answer)"
    by simp
  then obtain h where steps: "steps = pre @ map (Did Handler) h" by blast
  from promise_all2_first_steps [OF assms(1,2) all]
  have two: "take 2 pre = [Issue P1 (first_call n1), Issue P2 (first_call n2)]" .
  then have "length (take 2 pre) = 2"
    by simp
  then have "2 \<le> length pre"
    by simp
  with two steps have first: "take 2 steps = [Issue P1 (first_call n1), Issue P2 (first_call n2)]"
    by simp
  from promise_all2_replay [OF all [unfolded r]] steps
  have whole: "replay (findProduct_steps n1) (events_by P1 steps) = Some (Inr d1)
             \<and> replay (findProduct_steps n2) (events_by P2 steps) = Some (Inr d2)"
    by (simp add: events_by_append events_by_handler)
  from first whole steps promise_all2_actor [OF all] shape show ?thesis
    by blast
qed

theorem resolvers_start_together_and_both_finish_witness:
  "(let steps = [Issue P1 (SearchFor ''nutella'' 1 1),
                 Issue P2 (Lookup ''9999999999999''),
                 Did P1 (Search ''nutella'' 1 1 (Inr (Some \<lparr>products = Some [nutella]\<rparr>))),
                 Issue P1 (Lookup ''3017620422003''),
                 Did P2 (BarcodeLookup ''9999999999999'' (Inr None)),
                 Issue P2 (SearchFor ''9999999999999'' 1 1),
                 Did P1 (BarcodeLookup ''3017620422003'' (Inr (Some nutella))),
                 Did P2 (Search ''9999999999999'' 1 1 (Inr (Some \<lparr>products = Some []\<rparr>)))]
    in \<not> blank ''nutella'' \<and> \<not> blank ''9999999999999''
       \<and> compareProducts shop [P1, P2] ''nutella'' ''9999999999999'' 0 =
           (Inr \<lparr>content = [TextContent ([dq] @ ''9999999999999'' @ [dq] @ '' not found.'')],
                 isError = Some True\<rparr>,
            steps, 4)
       \<and> take 2 steps = [Issue P1 (first_call ''nutella''), Issue P2 (first_call ''9999999999999'')]
       \<and> first_call ''nutella'' = SearchFor ''nutella'' 1 1
       \<and> first_call ''9999999999999'' = Lookup ''9999999999999''
       \<and> replay (findProduct_steps ''nutella'') (events_by P1 steps)
           = Some (Inr (Some (Bundle (Some nutella))))
       \<and> replay (findProduct_steps ''9999999999999'') (events_by P2 steps) = Some (Inr None))"
proof -
  let ?steps = "[Issue P1 (SearchFor ''nutella'' 1 1),
                 Issue P2 (Lookup ''9999999999999''),
                 Did P1 (Search ''nutella'' 1 1 (Inr (Some \<lparr>products = Some [nutella]\<rparr>))),
                 Issue P1 (Lookup ''3017620422003''),
                 Did P2 (BarcodeLookup ''9999999999999'' (Inr None)),
                 Issue P2 (SearchFor ''9999999999999'' 1 1),
                 Did P1 (BarcodeLookup ''3017620422003'' (Inr (Some nutella))),
                 Did P2 (Search ''9999999999999'' 1 1 (Inr (Some \<lparr>products = Some []\<rparr>)))
                 :: string step]"
  have a: "\<not> blank ''nutella''" and b: "\<not> blank ''9999999999999''"
    by (simp_all add: string_defs)
  have run: "compareProducts shop [P1, P2] ''nutella'' ''9999999999999'' 0 =
           (Inr \<lparr>content = [TextContent ([dq] @ ''9999999999999'' @ [dq] @ '' not found.'')],
                 isError = Some True\<rparr>,
            ?steps, 4)"
    by code_simp
  have calls: "first_call ''nutella'' = SearchFor ''nutella'' 1 1"
    "first_call ''9999999999999'' = Lookup ''9999999999999''"
    by (simp_all add: first_call_def string_defs)
  have one: "replay (findProduct_steps ''nutella'') (events_by P1 ?steps)
           = Some (Inr (Some (Bundle (Some nutella))))"
    by code_simp
  have two: "replay (findProduct_steps ''9999999999999'') (events_by P2 ?steps) = Some (Inr None)"
    by code_simp
  from resolvers_start_together_and_both_finish [OF a b run]
  have "take 2 ?steps = [Issue P1 (first_call ''nutella''), Issue P2 (first_call ''9999999999999'')]"
    by blast
  with a b run calls one two show ?thesis
    unfolding Let_def by blast
qed

end
